theory Spec2Isabelle
  imports Complex_Main
begin

chapter \<open>The model\<close>

section \<open>JavaScript values\<close>

text \<open>
  The dashboard and the login page keep their data in plain JavaScript values: what
  \<^verbatim>\<open>response.json()\<close> and \<^verbatim>\<open>JSON.parse\<close> return, and \<^verbatim>\<open>undefined\<close> for a property
  that is not there. Numbers are modelled as reals: JSON has no NaN and no infinity, and
  the rounding of binary floating point is left out. Strings are byte strings; a
  character outside ASCII is written as its UTF-8 bytes.
\<close>

datatype jsval =
    JUndefined
  | JNull
  | JBool bool
  | JNum real
  | JStr string
  | JArr "jsval list"
  | JObj "(string \<times> jsval) list"

text \<open>Truthiness, as \<^verbatim>\<open>if (v)\<close>, \<^verbatim>\<open>!v\<close>, \<^verbatim>\<open>a && b\<close> and \<^verbatim>\<open>a || b\<close> test it.\<close>

fun truthy :: "jsval \<Rightarrow> bool" where
  "truthy JUndefined = False"
| "truthy JNull = False"
| "truthy (JBool b) = b"
| "truthy (JNum x) = (x \<noteq> 0)"
| "truthy (JStr s) = (s \<noteq> [])"
| "truthy (JArr xs) = True"
| "truthy (JObj fs) = True"

text \<open>\<^verbatim>\<open>a || b\<close> on values.\<close>

definition js_or :: "jsval \<Rightarrow> jsval \<Rightarrow> jsval" where
  "js_or a b = (if truthy a then a else b)"

text \<open>
  \<^verbatim>\<open>v.k\<close> for a value \<open>v\<close> that is neither \<^verbatim>\<open>null\<close> nor \<^verbatim>\<open>undefined\<close> and a name \<open>k\<close>
  that no prototype defines (\<^verbatim>\<open>name\<close>, \<^verbatim>\<open>initials\<close>, \<^verbatim>\<open>role\<close>, \<^verbatim>\<open>crop\<close>,
  \<^verbatim>\<open>fertilizers\<close>, \<^verbatim>\<open>forecast\<close>): the own property of an object, \<^verbatim>\<open>undefined\<close> on
  anything else.
\<close>

definition js_prop :: "jsval \<Rightarrow> string \<Rightarrow> jsval" where
  "js_prop v k =
     (case v of
        JObj fs \<Rightarrow> (case map_of fs k of None \<Rightarrow> JUndefined | Some x \<Rightarrow> x)
      | _ \<Rightarrow> JUndefined)"

text \<open>The errors the modelled code can throw or be rejected with.\<close>

datatype js_error =
    HTTP_Error nat
  | NetworkError
  | AbortError
  | SyntaxError
  | TypeError

text \<open>
  \<^verbatim>\<open>a.length\<close> and \<^verbatim>\<open>a[0]\<close>: a \<^verbatim>\<open>TypeError\<close> on \<^verbatim>\<open>null\<close> and \<^verbatim>\<open>undefined\<close>, the
  length and the first element of an array or a string, the own property of that name
  of an object, \<^verbatim>\<open>undefined\<close> on a number or a boolean.
\<close>

fun js_length :: "jsval \<Rightarrow> js_error + jsval" where
  "js_length JUndefined = Inl TypeError"
| "js_length JNull = Inl TypeError"
| "js_length (JArr xs) = Inr (JNum (real (length xs)))"
| "js_length (JStr s) = Inr (JNum (real (length s)))"
| "js_length (JObj fs) = Inr (js_prop (JObj fs) ''length'')"
| "js_length (JBool b) = Inr JUndefined"
| "js_length (JNum x) = Inr JUndefined"

fun js_first :: "jsval \<Rightarrow> js_error + jsval" where
  "js_first JUndefined = Inl TypeError"
| "js_first JNull = Inl TypeError"
| "js_first (JArr xs) = Inr (case xs of [] \<Rightarrow> JUndefined | x # _ \<Rightarrow> x)"
| "js_first (JStr s) = Inr (case s of [] \<Rightarrow> JUndefined | ch # _ \<Rightarrow> JStr [ch])"
| "js_first (JObj fs) = Inr (js_prop (JObj fs) ''0'')"
| "js_first (JBool b) = Inr JUndefined"
| "js_first (JNum x) = Inr JUndefined"

text \<open>\<^verbatim>\<open>xs[i]\<close> on an array literal: \<^verbatim>\<open>undefined\<close> (here \<open>None\<close>) out of range.\<close>

definition js_nth :: "'a list \<Rightarrow> int \<Rightarrow> 'a option" where
  "js_nth xs i = (if 0 \<le> i \<and> nat i < length xs then Some (xs ! nat i) else None)"

text \<open>
  A number that may be \<^verbatim>\<open>NaN\<close>, which is \<open>None\<close>; \<^verbatim>\<open>a * b\<close> is \<^verbatim>\<open>NaN\<close> as soon as
  one factor is.
\<close>

type_synonym js_number = "real option"

definition js_times :: "js_number \<Rightarrow> js_number \<Rightarrow> js_number" where
  "js_times a b =
     (case a of None \<Rightarrow> None | Some x \<Rightarrow> (case b of None \<Rightarrow> None | Some y \<Rightarrow> Some (x * y)))"

text \<open>
  The names that every object literal inherits from \<^verbatim>\<open>Object.prototype\<close>. Under such a
  name \<^verbatim>\<open>table[key]\<close> is a function (for \<^verbatim>\<open>__proto__\<close> the prototype object): a truthy
  value that is \<^verbatim>\<open>NaN\<close> as a number and has no properties \<^verbatim>\<open>n\<close>, \<^verbatim>\<open>p\<close>, \<^verbatim>\<open>k\<close>.
\<close>

definition object_prototype_names :: "string list" where
  "object_prototype_names =
     [''constructor'', ''__defineGetter__'', ''__defineSetter__'', ''hasOwnProperty'',
      ''__lookupGetter__'', ''__lookupSetter__'', ''isPrototypeOf'', ''propertyIsEnumerable'',
      ''toString'', ''valueOf'', ''__proto__'', ''toLocaleString'']"

definition inherited :: "string \<Rightarrow> bool" where
  "inherited key = (key \<in> set object_prototype_names)"

text \<open>
  \<^verbatim>\<open>(table[key] || dflt)\<close> as a factor of a product, for an object literal of numbers
  that has none of the inherited names as a key of its own: an own key gives its number
  (the default when that is 0), an inherited name gives \<^verbatim>\<open>NaN\<close>, any other name the
  default.
\<close>

definition lookup_or :: "(string \<rightharpoonup> real) \<Rightarrow> string \<Rightarrow> real \<Rightarrow> js_number" where
  "lookup_or table key dflt =
     (case table key of
        Some v \<Rightarrow> Some (if v = 0 then dflt else v)
      | None \<Rightarrow> if inherited key then None else Some dflt)"

text \<open>
  \<^verbatim>\<open>parseFloat(field) || null\<close>: \<open>None\<close> is \<^verbatim>\<open>NaN\<close> on the left and \<^verbatim>\<open>null\<close> on the right.
\<close>

definition or_null :: "real option \<Rightarrow> real option" where
  "or_null parsed = (case parsed of None \<Rightarrow> None | Some x \<Rightarrow> if x = 0 then None else Some x)"

text \<open>\<^verbatim>\<open>data.x && cond(data.x)\<close> for a field that is a number or \<^verbatim>\<open>null\<close>.\<close>

definition and_then :: "real option \<Rightarrow> (real \<Rightarrow> bool) \<Rightarrow> bool" where
  "and_then field cond = (case field of None \<Rightarrow> False | Some x \<Rightarrow> x \<noteq> 0 \<and> cond x)"

text \<open>\<^verbatim>\<open>Math.round\<close> rounds halves up; \<^verbatim>\<open>Math.floor\<close> is \<open>\<lfloor>_\<rfloor>\<close>.\<close>

definition Math_round :: "real \<Rightarrow> int" where
  "Math_round x = \<lfloor>x + 1 / 2\<rfloor>"


text \<open>
  The characters outside ASCII in the string literals of the dashboard, byte for byte as
  the module has them: each is the UTF-8 encoding of a dash or a pictograph that was
  read as Mac OS Roman and encoded again. The constants are named after the character
  that was meant. \<open>em_dash\<close> is the em dash itself (U+2014), which the module's
  literals do not contain.
\<close>

definition em_dash :: string where
  "em_dash = [CHR 0xE2, CHR 0x80, CHR 0x94]"

definition dash_literal :: string where
  "dash_literal =
     [CHR 0xE2, CHR 0x80, CHR 0x9A, CHR 0xC3, CHR 0x84, CHR 0xC3, CHR 0xAE]"

definition warning_sign :: string where
  "warning_sign =
     [CHR 0xE2, CHR 0x80, CHR 0x9A, CHR 0xC3, CHR 0xB6, CHR 0xE2, CHR 0x80, CHR 0xA0,
      CHR 0xC3, CHR 0x94, CHR 0xE2, CHR 0x88, CHR 0x8F, CHR 0xC3, CHR 0xA8]"

definition check_mark :: string where
  "check_mark =
     [CHR 0xE2, CHR 0x80, CHR 0x9A, CHR 0xC3, CHR 0xBA, CHR 0xC3, CHR 0x96]"

definition green_circle :: string where
  "green_circle =
     [CHR 0xEF, CHR 0xA3, CHR 0xBF, CHR 0xC3, CHR 0xBC, CHR 0xC3, CHR 0xBC, CHR 0xC2,
      CHR 0xA2]"

definition yellow_circle :: string where
  "yellow_circle =
     [CHR 0xEF, CHR 0xA3, CHR 0xBF, CHR 0xC3, CHR 0xBC, CHR 0xC3, CHR 0xBC, CHR 0xC2,
      CHR 0xB0]"

definition red_circle :: string where
  "red_circle =
     [CHR 0xEF, CHR 0xA3, CHR 0xBF, CHR 0xC3, CHR 0xBC, CHR 0xC3, CHR 0xAE, CHR 0xC2,
      CHR 0xA5]"

definition icon_sun :: string where
  "icon_sun =
     [CHR 0xE2, CHR 0x80, CHR 0x9A, CHR 0xC3, CHR 0xB2, CHR 0xC3, CHR 0x84, CHR 0xC3,
      CHR 0x94, CHR 0xE2, CHR 0x88, CHR 0x8F, CHR 0xC3, CHR 0xA8]"

definition icon_sun_small_cloud :: string where
  "icon_sun_small_cloud =
     [CHR 0xEF, CHR 0xA3, CHR 0xBF, CHR 0xC3, CHR 0xBC, CHR 0xC3, CHR 0xA5, CHR 0xC2,
      CHR 0xA7, CHR 0xC3, CHR 0x94, CHR 0xE2, CHR 0x88, CHR 0x8F, CHR 0xC3, CHR 0xA8]"

definition icon_sun_behind_cloud :: string where
  "icon_sun_behind_cloud =
     [CHR 0xE2, CHR 0x80, CHR 0x9A, CHR 0xC3, CHR 0xB5, CHR 0xC3, CHR 0x96]"

definition icon_cloud :: string where
  "icon_cloud =
     [CHR 0xE2, CHR 0x80, CHR 0x9A, CHR 0xC3, CHR 0xB2, CHR 0xC3, CHR 0x85, CHR 0xC3,
      CHR 0x94, CHR 0xE2, CHR 0x88, CHR 0x8F, CHR 0xC3, CHR 0xA8]"

definition icon_rain :: string where
  "icon_rain =
     [CHR 0xEF, CHR 0xA3, CHR 0xBF, CHR 0xC3, CHR 0xBC, CHR 0xC3, CHR 0xA5, CHR 0xC3,
      CHR 0x9F, CHR 0xC3, CHR 0x94, CHR 0xE2, CHR 0x88, CHR 0x8F, CHR 0xC3, CHR 0xA8]"

definition icon_thunderstorm :: string where
  "icon_thunderstorm =
     [CHR 0xE2, CHR 0x80, CHR 0x9A, CHR 0xC3, CHR 0xB5, CHR 0xC3, CHR 0xA0, CHR 0xC3,
      CHR 0x94, CHR 0xE2, CHR 0x88, CHR 0x8F, CHR 0xC3, CHR 0xA8]"

section \<open>API response cache\<close>

text \<open>
  \<^verbatim>\<open>const API_CACHE = new Map(); const CACHE_TTL = 5 * 60 * 1000;\<close>
  An entry is \<^verbatim>\<open>{ data, timestamp }\<close>; \<^verbatim>\<open>Date.now()\<close> is the parameter \<open>now\<close>,
  in milliseconds.
\<close>

record cache_entry =
  data :: jsval
  timestamp :: int

type_synonym api_cache = "string \<rightharpoonup> cache_entry"

definition CACHE_TTL :: int where
  "CACHE_TTL = 5 * 60 * 1000"

text \<open>
  \<^verbatim>\<open>const entry = API_CACHE.get(key);
  if (entry && Date.now() - entry.timestamp < CACHE_TTL) return entry.data;
  return null;\<close>
\<close>

definition getCached :: "int \<Rightarrow> api_cache \<Rightarrow> string \<Rightarrow> jsval" where
  "getCached now c key =
     (case c key of
        None \<Rightarrow> JNull
      | Some entry \<Rightarrow> if now - timestamp entry < CACHE_TTL then data entry else JNull)"

text \<open>\<^verbatim>\<open>API_CACHE.set(key, { data, timestamp: Date.now() });\<close>\<close>

definition setCache :: "int \<Rightarrow> api_cache \<Rightarrow> string \<Rightarrow> jsval \<Rightarrow> api_cache" where
  "setCache now c key d = c(key \<mapsto> \<lparr>data = d, timestamp = now\<rparr>)"

text \<open>
  A history of the cache since the page was loaded: the \<open>setCache\<close> calls made so far,
  each with the clock reading it saw, applied in order.
\<close>

fun cache_after :: "(int \<times> string \<times> jsval) list \<Rightarrow> api_cache \<Rightarrow> api_cache" where
  "cache_after [] c = c"
| "cache_after ((t, k, v) # puts) c = cache_after puts (setCache t c k v)"

section \<open>Timed request gateway\<close>

text \<open>
  \<^verbatim>\<open>localStorage\<close> maps keys to strings. The network is the parameter \<open>net\<close>: what
  \<^verbatim>\<open>fetch\<close> does with a request, either rejecting (a transport error, or the abort that
  the 8 second timer triggers) or answering with a status and a body, whose
  \<^verbatim>\<open>response.json()\<close> is \<open>None\<close> when the body is not JSON.
\<close>

type_synonym local_storage = "string \<rightharpoonup> string"

record options =
  opt_method :: "string option"
  opt_headers :: "(string \<rightharpoonup> string) option"
  opt_body :: "string option"

record request =
  req_url :: string
  req_options :: options

datatype fetch_outcome =
    Rejects js_error
  | Responds nat "jsval option"

text \<open>\<^verbatim>\<open>response.ok\<close>: the status is in the range 200 to 299.\<close>

definition response_ok :: "nat \<Rightarrow> bool" where
  "response_ok status = (200 \<le> status \<and> status \<le> 299)"

text \<open>
  \<^verbatim>\<open>const token = localStorage.getItem('cropdoctor_token');
  if (token) { options.headers = options.headers || {};
               options.headers['Authorization'] = `Bearer ${token}`; }
  const response = await fetch(url, { ...options, signal: controller.signal });
  if (!response.ok) throw new Error(`HTTP ${response.status}`);
  return await response.json();\<close>
  with \<^verbatim>\<open>catch (err) { clearTimeout(timeout); throw err; }\<close> around it. The result is
  what the promise settles to, paired with the requests handed to \<^verbatim>\<open>fetch\<close>.
\<close>

definition apiFetch ::
  "local_storage \<Rightarrow> (request \<Rightarrow> fetch_outcome) \<Rightarrow> string \<Rightarrow> options
    \<Rightarrow> (js_error + jsval) \<times> request list" where
  "apiFetch storage net url options =
     (let token = storage ''cropdoctor_token'';
          options1 =
            (case token of
               None \<Rightarrow> options
             | Some tk \<Rightarrow>
                 if tk = [] then options
                 else options\<lparr>opt_headers :=
                   Some ((case opt_headers options of None \<Rightarrow> Map.empty | Some h \<Rightarrow> h)
                           (''Authorization'' \<mapsto> ''Bearer '' @ tk))\<rparr>);
          req = \<lparr>req_url = url, req_options = options1\<rparr>
      in (case net req of
            Rejects err \<Rightarrow> Inl err
          | Responds status body \<Rightarrow>
              if \<not> response_ok status then Inl (HTTP_Error status)
              else (case body of None \<Rightarrow> Inl SyntaxError | Some v \<Rightarrow> Inr v),
          [req]))"

text \<open>\<^verbatim>\<open>options = {}\<close>, the default, and the options of a JSON \<^verbatim>\<open>POST\<close>.\<close>

definition no_options :: options where
  "no_options = \<lparr>opt_method = None, opt_headers = None, opt_body = None\<rparr>"


definition API_BASE :: string where
  "API_BASE = ''https://crop-monitoring-system-3.onrender.com''"

section \<open>Fallback estimators\<close>

subsection \<open>Yield\<close>

text \<open>
  The request that \<^verbatim>\<open>predictYield\<close> builds from the form: \<^verbatim>\<open>rainfall\<close> and
  \<^verbatim>\<open>temperature\<close> are \<^verbatim>\<open>parseFloat(field) || null\<close>, a number or \<^verbatim>\<open>null\<close>.
\<close>

record yield_data =
  y_crop :: string
  y_soil :: string
  y_area :: real
  y_season :: string
  y_sowing_date :: string
  y_harvest_date :: "string option"
  y_rainfall :: "real option"
  y_temperature :: "real option"


definition baseYields :: "string \<rightharpoonup> real" where
  "baseYields = map_of
     [(''rice'', 4.5), (''wheat'', 3.8), (''corn'', 6.2), (''soybean'', 2.8),
      (''cotton'', 1.8), (''sugarcane'', 70), (''potato'', 25), (''tomato'', 30)]"

definition soilMult :: "string \<rightharpoonup> real" where
  "soilMult = map_of
     [(''clay'', 0.92), (''sandy'', 0.78), (''loamy'', 1.1), (''silt'', 1.0),
      (''peat'', 0.88), (''chalky'', 0.82)]"

definition seasonMult :: "string \<rightharpoonup> real" where
  "seasonMult = map_of [(''kharif'', 1.05), (''rabi'', 0.95), (''zaid'', 0.85)]"

text \<open>
  The local variable \<^verbatim>\<open>y\<close> of \<^verbatim>\<open>localYieldPrediction\<close> when it returns; \<open>jitter\<close> is the
  first \<^verbatim>\<open>Math.random()\<close>.
  \<^verbatim>\<open>let y = (baseYields[data.crop] || 4.0) * (soilMult[data.soil] || 1.0)
              * (seasonMult[data.season] || 1.0);
  if (data.temperature && (data.temperature > 35 || data.temperature < 10)) y *= 0.85;
  if (data.rainfall && data.rainfall > 300) y *= 0.9;
  if (data.rainfall && data.rainfall < 50) y *= 0.8;
  y *= (0.95 + Math.random() * 0.1);\<close>
\<close>

definition yield_base :: "yield_data \<Rightarrow> js_number" where
  "yield_base d =
     js_times
       (js_times (lookup_or baseYields (y_crop d) 4.0) (lookup_or soilMult (y_soil d) 1.0))
       (lookup_or seasonMult (y_season d) 1.0)"

definition yield_y :: "yield_data \<Rightarrow> real \<Rightarrow> js_number" where
  "yield_y d jitter =
     (let y0 = yield_base d;
          y1 = (if and_then (y_temperature d) (\<lambda>t. t > 35 \<or> t < 10)
                then js_times y0 (Some 0.85) else y0);
          y2 = (if and_then (y_rainfall d) (\<lambda>r. r > 300) then js_times y1 (Some 0.9) else y1);
          y3 = (if and_then (y_rainfall d) (\<lambda>r. r < 50) then js_times y2 (Some 0.8) else y2)
      in js_times y3 (Some (0.95 + jitter * 0.1)))"


subsection \<open>Irrigation\<close>

record irrigation_data =
  irr_crop :: string
  irr_soil :: string
  irr_moisture :: real
  irr_stage :: string

text \<open>
  \<^verbatim>\<open>moisture_level\<close> is \<^verbatim>\<open>data.moisture + '%'\<close>; the model keeps the number.
  \<^verbatim>\<open>water_per_day\<close> is \<^verbatim>\<open>Math.round(water)\<close>, \<open>None\<close> when that is \<^verbatim>\<open>NaN\<close>.
\<close>

record irrigation_result =
  water_per_day :: "int option"
  schedule :: string
  moisture_status :: string
  recommendation :: string
  moisture_level :: real

definition waterNeeds :: "string \<rightharpoonup> real" where
  "waterNeeds = map_of
     [(''rice'', 6000), (''wheat'', 3500), (''corn'', 4500), (''soybean'', 3000),
      (''cotton'', 4000), (''sugarcane'', 7000)]"

definition stageMult :: "string \<rightharpoonup> real" where
  "stageMult = map_of
     [(''seedling'', 0.6), (''vegetative'', 1.0), (''flowering'', 1.3), (''fruiting'', 1.1),
      (''maturity'', 0.5)]"

definition soilDrain :: "string \<rightharpoonup> real" where
  "soilDrain = map_of [(''clay'', 0.7), (''sandy'', 1.4), (''loamy'', 1.0), (''silt'', 0.9)]"

text \<open>
  \<^verbatim>\<open>let water = (waterNeeds[data.crop] || 4000) * (stageMult[data.stage] || 1.0)
                  * (soilDrain[data.soil] || 1.0);\<close>
\<close>

definition irrigation_water :: "irrigation_data \<Rightarrow> js_number" where
  "irrigation_water d =
     js_times
       (js_times (lookup_or waterNeeds (irr_crop d) 4000) (lookup_or stageMult (irr_stage d) 1.0))
       (lookup_or soilDrain (irr_soil d) 1.0)"

text \<open>
  \<^verbatim>\<open>let schedule = data.moisture > 60 ? '72h' : data.moisture > 40 ? '48h' : '24h';
  let moistureStatus = data.moisture < 30 ? 'Critical - Irrigate Immediately' :
      data.moisture < 40 ? 'Low - Schedule Irrigation' :
          data.moisture > 70 ? 'High - Reduce Irrigation' : 'Adequate';\<close>
  where each \<^verbatim>\<open>-\<close> stands for the three characters \<open>dash_literal\<close> of the module's
  literals, then the returned object, with \<^verbatim>\<open>Math.round(water)\<close>.
\<close>

definition localIrrigationCalc :: "irrigation_data \<Rightarrow> irrigation_result" where
  "localIrrigationCalc d =
     (let water = irrigation_water d;
          schedule = (if irr_moisture d > 60 then ''72h''
                      else if irr_moisture d > 40 then ''48h'' else ''24h'');
          moistureStatus =
            (if irr_moisture d < 30 then ''Critical '' @ dash_literal @ '' Irrigate Immediately''
             else if irr_moisture d < 40 then ''Low '' @ dash_literal @ '' Schedule Irrigation''
             else if irr_moisture d > 70 then ''High '' @ dash_literal @ '' Reduce Irrigation''
             else ''Adequate'')
      in \<lparr>water_per_day = map_option Math_round water,
          schedule = schedule,
          moisture_status = moistureStatus,
          recommendation =
            ''For '' @ irr_crop d @ '' in '' @ irr_soil d @ '' soil at '' @ irr_stage d
              @ '' stage: ''
              @ (if irr_moisture d < 35
                 then warning_sign @ '' Immediate irrigation recommended.''
                 else check_mark @ '' Moisture levels acceptable.'')
              @ '' Apply water early morning or late evening. Consider drip irrigation for 40% water savings.'',
          moisture_level = irr_moisture d\<rparr>)"

subsection \<open>Fertilizer\<close>

record fertilizer_data =
  fert_crop :: string
  fert_soil :: string
  fert_area :: real
  fert_stage :: string

record fertilizer =
  f_name :: string
  f_dosage :: string
  f_icon :: string
  f_desc :: string

record npk =
  row_n :: fertilizer
  row_p :: fertilizer
  row_k :: fertilizer

text \<open>An entry of \<^verbatim>\<open>fertilizers\<close> is a fertilizer or \<^verbatim>\<open>undefined\<close>, which is \<open>None\<close>.\<close>

record fertilizer_result =
  fertilizers :: "fertilizer option list"
  tips :: string

definition db_rice :: npk where
  "db_rice =
     \<lparr>row_n = \<lparr>f_name = ''Urea (N)'', f_dosage = ''120 kg/ha'', f_icon = green_circle,
            f_desc = ''Apply in 3 split doses''\<rparr>,
      row_p = \<lparr>f_name = ''DAP (P)'', f_dosage = ''60 kg/ha'', f_icon = yellow_circle,
            f_desc = ''Apply at basal''\<rparr>,
      row_k = \<lparr>f_name = ''MOP (K)'', f_dosage = ''40 kg/ha'', f_icon = red_circle,
            f_desc = ''Apply at basal & tillering''\<rparr>\<rparr>"

definition db_wheat :: npk where
  "db_wheat =
     \<lparr>row_n = \<lparr>f_name = ''Urea (N)'', f_dosage = ''100 kg/ha'', f_icon = green_circle,
            f_desc = ''Apply in 2 split doses''\<rparr>,
      row_p = \<lparr>f_name = ''SSP (P)'', f_dosage = ''50 kg/ha'', f_icon = yellow_circle,
            f_desc = ''Apply at sowing''\<rparr>,
      row_k = \<lparr>f_name = ''MOP (K)'', f_dosage = ''30 kg/ha'', f_icon = red_circle,
            f_desc = ''Apply at sowing''\<rparr>\<rparr>"

definition db_corn :: npk where
  "db_corn =
     \<lparr>row_n = \<lparr>f_name = ''Urea (N)'', f_dosage = ''150 kg/ha'', f_icon = green_circle,
            f_desc = ''Apply in 3 split doses''\<rparr>,
      row_p = \<lparr>f_name = ''DAP (P)'', f_dosage = ''70 kg/ha'', f_icon = yellow_circle,
            f_desc = ''Apply at basal''\<rparr>,
      row_k = \<lparr>f_name = ''MOP (K)'', f_dosage = ''50 kg/ha'', f_icon = red_circle,
            f_desc = ''Apply at basal''\<rparr>\<rparr>"

text \<open>
  The own keys \<^verbatim>\<open>rice\<close>, \<^verbatim>\<open>wheat\<close> and \<^verbatim>\<open>corn\<close> of the object literal \<^verbatim>\<open>db\<close> of
  \<^verbatim>\<open>localFertilizerCalc\<close>.
\<close>

definition db :: "string \<rightharpoonup> npk" where
  "db = map_of [(''rice'', db_rice), (''wheat'', db_wheat), (''corn'', db_corn)]"

text \<open>
  \<^verbatim>\<open>const rec = db[data.crop] || db.rice;
  return { fertilizers: [rec.n, rec.p, rec.k], tips: `For ${data.crop} in ...` };\<close>
  \<^verbatim>\<open>db[data.crop]\<close> is the row of an own key, the inherited member (here \<open>None\<close>)
  under a name of \<^verbatim>\<open>Object.prototype\<close>, which is truthy, so that \<^verbatim>\<open>rec.n\<close>, \<^verbatim>\<open>rec.p\<close>
  and \<^verbatim>\<open>rec.k\<close> are \<^verbatim>\<open>undefined\<close>, and \<^verbatim>\<open>undefined\<close> under any other name, where
  \<^verbatim>\<open>db.rice\<close> takes its place.
\<close>

definition localFertilizerCalc :: "fertilizer_data \<Rightarrow> fertilizer_result" where
  "localFertilizerCalc d =
     (let rec = (case db (fert_crop d) of
                   Some row \<Rightarrow> Some row
                 | None \<Rightarrow> if inherited (fert_crop d) then None else Some db_rice)
      in \<lparr>fertilizers = [map_option row_n rec, map_option row_p rec, map_option row_k rec],
          tips = ''For '' @ fert_crop d @ '' in '' @ fert_soil d @ '' soil at '' @ fert_stage d
            @ '' stage: Apply fertilizers when soil has adequate moisture. Best time is early morning or late evening. Consider soil testing every season for precise recommendations.''\<rparr>)"

subsection \<open>Weather\<close>

text \<open>
  The \<^verbatim>\<open>Math.random()\<close> draws of one \<^verbatim>\<open>localWeather\<close> call, each in \<open>[0, 1)\<close>; the
  forecast draws are indexed by the position of the day.
\<close>

record weather_draws =
  draw_idx :: real
  draw_day_icon :: "nat \<Rightarrow> real"
  draw_day_high :: "nat \<Rightarrow> real"
  draw_day_low :: "nat \<Rightarrow> real"
  draw_temp :: real
  draw_humidity :: real
  draw_wind :: real
  draw_pressure :: real

definition in_unit_interval :: "real \<Rightarrow> bool" where
  "in_unit_interval x = (0 \<le> x \<and> x < 1)"

record forecast_day =
  fd_day :: string
  fd_icon :: "string option"
  fd_high :: int
  fd_low :: int

record weather_result =
  w_temp :: int
  w_icon :: "string option"
  w_description :: "string option"
  w_location :: string
  w_humidity :: int
  w_wind :: int
  w_pressure :: int
  w_forecast :: "forecast_day list"
  w_advisory :: string

definition icons :: "string list" where
  "icons = [icon_sun, icon_sun_small_cloud, icon_sun_behind_cloud, icon_cloud, icon_rain,
            icon_thunderstorm]"

definition descs :: "string list" where
  "descs = [''Sunny'', ''Partly Cloudy'', ''Mostly Cloudy'', ''Cloudy'', ''Light Rain'',
            ''Thunderstorm'']"

definition days :: "string list" where
  "days = [''Mon'', ''Tue'', ''Wed'', ''Thu'', ''Fri'']"

text \<open>A template literal prints \<^verbatim>\<open>undefined\<close> for a missing array element.\<close>

definition template_str :: "string option \<Rightarrow> string" where
  "template_str s = (case s of None \<Rightarrow> ''undefined'' | Some t \<Rightarrow> t)"

text \<open>
  \<^verbatim>\<open>const idx = Math.floor(Math.random() * 3);
  const forecast = days.map(day => ({
      day, icon: icons[Math.floor(Math.random() * icons.length)],
      high: 25 + Math.floor(Math.random() * 10),
      low: 18 + Math.floor(Math.random() * 7) }));
  return { temp: 25 + Math.floor(Math.random() * 10), icon: icons[idx],
      description: descs[idx], location,
      humidity: 55 + Math.floor(Math.random() * 30),
      wind: 8 + Math.floor(Math.random() * 20),
      pressure: 1008 + Math.floor(Math.random() * 15),
      forecast,
      advisory: `Weather in ${location}: ${descs[idx]}. ${idx < 3 ? 'Favorable for field
        operations and spraying.' : 'Consider delaying field operations. Protect seedlings
        from rainfall.'} Monitor updates before planning irrigation.` };\<close>
\<close>

definition localWeather :: "string \<Rightarrow> weather_draws \<Rightarrow> weather_result" where
  "localWeather location r =
     (let idx = \<lfloor>draw_idx r * 3\<rfloor>;
          forecast =
            map (\<lambda>(i, day).
                  \<lparr>fd_day = day,
                   fd_icon = js_nth icons \<lfloor>draw_day_icon r i * real (length icons)\<rfloor>,
                   fd_high = 25 + \<lfloor>draw_day_high r i * 10\<rfloor>,
                   fd_low = 18 + \<lfloor>draw_day_low r i * 7\<rfloor>\<rparr>)
              (enumerate 0 days)
      in \<lparr>w_temp = 25 + \<lfloor>draw_temp r * 10\<rfloor>,
          w_icon = js_nth icons idx,
          w_description = js_nth descs idx,
          w_location = location,
          w_humidity = 55 + \<lfloor>draw_humidity r * 30\<rfloor>,
          w_wind = 8 + \<lfloor>draw_wind r * 20\<rfloor>,
          w_pressure = 1008 + \<lfloor>draw_pressure r * 15\<rfloor>,
          w_forecast = forecast,
          w_advisory =
            ''Weather in '' @ location @ '': '' @ template_str (js_nth descs idx) @ ''. ''
              @ (if idx < 3 then ''Favorable for field operations and spraying.''
                 else ''Consider delaying field operations. Protect seedlings from rainfall.'')
              @ '' Monitor updates before planning irrigation.''\<rparr>)"

section \<open>View controllers\<close>























section \<open>Session store\<close>

text \<open>
  \<^verbatim>\<open>loadUserInfo\<close> reads the record under \<^verbatim>\<open>cropdoctor_user\<close>. \<^verbatim>\<open>JSON.parse\<close> is the
  parameter \<open>parse\<close>, \<open>None\<close> where it throws. Setting \<^verbatim>\<open>window.location.href\<close> to
  \<^verbatim>\<open>login.html\<close> is the outcome \<open>Redirect_to_login\<close>; a record that passes the checks is
  kept as \<^verbatim>\<open>window.currentUser\<close>.
  \<^verbatim>\<open>const raw = localStorage.getItem('cropdoctor_user');
  if (!raw) { window.location.href = 'login.html'; return; }
  let userData;
  try { userData = JSON.parse(raw); } catch (e) {
      localStorage.removeItem('cropdoctor_user');
      window.location.href = 'login.html'; return;
  }
  if (!userData || !userData.name) {
      localStorage.removeItem('cropdoctor_user');
      window.location.href = 'login.html'; return;
  }
  const initials = userData.initials || getInitials(userData.name);
  ...
  if (roleEl && userData.role) {
      roleEl.textContent = userData.role.charAt(0).toUpperCase() + ...;
  }
  window.currentUser = userData;\<close>
  \<^verbatim>\<open>getInitials(name)\<close> calls \<^verbatim>\<open>name.trim()\<close> and \<^verbatim>\<open>userData.role.charAt\<close> is called
  when the role is truthy: both throw a \<^verbatim>\<open>TypeError\<close> on a value that is not a string.
\<close>

datatype load_outcome =
    Redirect_to_login
  | Loaded jsval
  | Load_threw js_error

definition is_string :: "jsval \<Rightarrow> bool" where
  "is_string v = (case v of JStr s \<Rightarrow> True | _ \<Rightarrow> False)"

definition loadUserInfo ::
  "(string \<Rightarrow> jsval option) \<Rightarrow> local_storage \<Rightarrow> local_storage \<times> load_outcome" where
  "loadUserInfo parse storage =
     (case storage ''cropdoctor_user'' of
        None \<Rightarrow> (storage, Redirect_to_login)
      | Some raw \<Rightarrow>
          if raw = [] then (storage, Redirect_to_login)
          else
            (case parse raw of
               None \<Rightarrow> (storage(''cropdoctor_user'' := None), Redirect_to_login)
             | Some userData \<Rightarrow>
                 if \<not> truthy userData \<or> \<not> truthy (js_prop userData ''name'')
                 then (storage(''cropdoctor_user'' := None), Redirect_to_login)
                 else if \<not> truthy (js_prop userData ''initials'')
                         \<and> \<not> is_string (js_prop userData ''name'')
                 then (storage, Load_threw TypeError)
                 else if truthy (js_prop userData ''role'')
                         \<and> \<not> is_string (js_prop userData ''role'')
                 then (storage, Load_threw TypeError)
                 else (storage, Loaded userData)))"

text \<open>The check that \<^verbatim>\<open>loadUserInfo\<close> makes on the parsed record: a truthy \<^verbatim>\<open>name\<close>.\<close>

definition has_required_fields :: "jsval \<Rightarrow> bool" where
  "has_required_fields userData = (truthy userData \<and> truthy (js_prop userData ''name''))"

section \<open>Offline directory\<close>

text \<open>
  The directory under \<^verbatim>\<open>cropdoctor_users\<close> is a JSON array of accounts; the model works
  on the parsed array and takes \<^verbatim>\<open>JSON.parse\<close> after \<^verbatim>\<open>JSON.stringify\<close> as the
  identity. An account has the contact \<^verbatim>\<open>email_phone\<close>, the password, and the
  profile fields, which the directory does not look at.
\<close>

record offline_user =
  email_phone :: string
  password :: string
  profile :: "(string \<times> jsval) list"

text \<open>\<^verbatim>\<open>users.findIndex(pred)\<close>: the first index whose element satisfies, or \<open>-1\<close>.\<close>

fun findIndex :: "('a \<Rightarrow> bool) \<Rightarrow> 'a list \<Rightarrow> int" where
  "findIndex pred [] = - 1"
| "findIndex pred (x # xs) =
     (if pred x then 0 else (let i = findIndex pred xs in if i < 0 then - 1 else i + 1))"

text \<open>
  \<^verbatim>\<open>const idx = users.findIndex(u => u.email_phone === userData.email_phone);
  if (idx >= 0) users[idx] = userData; else users.push(userData);\<close>
  in \<^verbatim>\<open>cacheUser\<close> of the login page, and the same statements in \<^verbatim>\<open>storeUserLocally\<close>
  of \<^verbatim>\<open>frontend/auth.js\<close>.
\<close>

definition cacheUser :: "offline_user list \<Rightarrow> offline_user \<Rightarrow> offline_user list" where
  "cacheUser users userData =
     (let idx = findIndex (\<lambda>u. email_phone u = email_phone userData) users
      in if idx \<ge> 0 then users[nat idx := userData] else users @ [userData])"

definition storeUserLocally :: "offline_user list \<Rightarrow> offline_user \<Rightarrow> offline_user list" where
  "storeUserLocally users userData =
     (let existingIdx = findIndex (\<lambda>u. email_phone u = email_phone userData) users
      in if existingIdx \<ge> 0 then users[nat existingIdx := userData] else users @ [userData])"

text \<open>The positions of a directory that hold a contact.\<close>

definition positions_of :: "string \<Rightarrow> offline_user list \<Rightarrow> nat list" where
  "positions_of contact users = filter (\<lambda>i. email_phone (users ! i) = contact) [0..<length users]"

section \<open>Admin panel\<close>

text \<open>
  A promise that has settled is a value or the error it was rejected with.
  \<^verbatim>\<open>p.then(f)\<close> rejects when \<open>p\<close> does or when \<open>f\<close> throws; \<^verbatim>\<open>p.catch(h)\<close> turns a
  rejection into the value of \<open>h\<close>; \<^verbatim>\<open>Promise.all\<close> fulfils with the values in the
  order of its argument when every promise fulfils, and rejects as soon as one does
  (the model names the first in the list).
\<close>

definition promise_then :: "js_error + 'a \<Rightarrow> ('a \<Rightarrow> js_error + 'b) \<Rightarrow> js_error + 'b" where
  "promise_then pr f = (case pr of Inl e \<Rightarrow> Inl e | Inr a \<Rightarrow> f a)"

definition promise_catch :: "js_error + 'a \<Rightarrow> (js_error \<Rightarrow> 'a) \<Rightarrow> js_error + 'a" where
  "promise_catch pr h = (case pr of Inl e \<Rightarrow> Inr (h e) | Inr a \<Rightarrow> Inr a)"

fun Promise_all :: "(js_error + 'a) list \<Rightarrow> js_error + 'a list" where
  "Promise_all [] = Inr []"
| "Promise_all (pr # prs) =
     (case pr of
        Inl e \<Rightarrow> Inl e
      | Inr a \<Rightarrow> (case Promise_all prs of Inl e \<Rightarrow> Inl e | Inr as \<Rightarrow> Inr (a # as)))"

text \<open>
  A farmer of the list that \<^verbatim>\<open>/api/admin/farmers\<close> returned: its \<^verbatim>\<open>id\<close>, the text
  \<^verbatim>\<open>`${f.id}`\<close> that the URL of its history carries, and the other fields.
\<close>

record farmer =
  farmer_id :: jsval
  farmer_id_text :: string
  farmer_fields :: "(string \<times> jsval) list"

text \<open>
  \<^verbatim>\<open>a => ({ id: f.id, count: a.length, latest: a[0] || null })\<close> and
  \<^verbatim>\<open>() => ({ id: f.id, count: 0, latest: null })\<close>.
\<close>

definition analysis_entry :: "farmer \<Rightarrow> jsval \<Rightarrow> js_error + jsval" where
  "analysis_entry f a =
     (case js_length a of
        Inl e \<Rightarrow> Inl e
      | Inr count \<Rightarrow>
          (case js_first a of
             Inl e \<Rightarrow> Inl e
           | Inr first \<Rightarrow>
               Inr (JObj [(''id'', farmer_id f), (''count'', count),
                          (''latest'', js_or first JNull)])))"

definition placeholder :: "farmer \<Rightarrow> jsval" where
  "placeholder f = JObj [(''id'', farmer_id f), (''count'', JNum 0), (''latest'', JNull)]"

text \<open>
  The batch of \<^verbatim>\<open>loadAdminData\<close>:
  \<^verbatim>\<open>const analysisCounts = await Promise.all(
      farmers.map(f =>
          apiFetch(`${API_BASE}/api/admin/farmers/${f.id}/analysis`)
              .then(a => ({ id: f.id, count: a.length, latest: a[0] || null }))
              .catch(() => ({ id: f.id, count: 0, latest: null }))));\<close>
\<close>

definition fetch_analysis :: "local_storage \<Rightarrow> (request \<Rightarrow> fetch_outcome) \<Rightarrow> farmer
    \<Rightarrow> js_error + jsval" where
  "fetch_analysis storage net f =
     fst (apiFetch storage net
            (API_BASE @ ''/api/admin/farmers/'' @ farmer_id_text f @ ''/analysis'') no_options)"

definition analysisCounts ::
  "local_storage \<Rightarrow> (request \<Rightarrow> fetch_outcome) \<Rightarrow> farmer list \<Rightarrow> js_error + jsval list" where
  "analysisCounts storage net farmers =
     Promise_all
       (map (\<lambda>f. promise_catch
                    (promise_then (fetch_analysis storage net f) (analysis_entry f))
                    (\<lambda>e. placeholder f))
            farmers)"

chapter \<open>Properties\<close>

section \<open>Response cache\<close>

lemma cache_after_untouched:
  "k \<notin> set (map (\<lambda>p. fst (snd p)) puts) \<Longrightarrow> cache_after puts c k = c k"
  by (induction puts arbitrary: c) (auto simp: setCache_def)

text \<open>
  C1. A \<open>getCached\<close> of key \<open>k\<close> after \<open>setCache\<close> of \<open>k\<close> with \<open>v\<close> returns \<open>v\<close> when it
  is made at once, and as long as less than \<open>CACHE_TTL\<close> = 300000 ms have elapsed; once
  300000 ms or more have elapsed it returns \<^verbatim>\<open>null\<close>; and a key that no \<open>setCache\<close>
  since the page load has stored reads as \<^verbatim>\<open>null\<close>.
\<close>

theorem getCached_setCache:
  "CACHE_TTL = 300000 \<and>
   getCached t (setCache t c k v) k = v \<and>
   (t' - t < CACHE_TTL \<longrightarrow> getCached t' (setCache t c k v) k = v) \<and>
   (CACHE_TTL \<le> t' - t \<longrightarrow> getCached t' (setCache t c k v) k = JNull) \<and>
   (k \<notin> set (map (\<lambda>p. fst (snd p)) puts) \<longrightarrow>
      getCached t' (cache_after puts Map.empty) k = JNull)"
proof -
  have ttl: "CACHE_TTL = 300000"
    by (simp add: CACHE_TTL_def)
  have now: "getCached t (setCache t c k v) k = v"
    by (simp add: getCached_def setCache_def ttl)
  have fresh: "t' - t < CACHE_TTL \<longrightarrow> getCached t' (setCache t c k v) k = v"
    by (simp add: getCached_def setCache_def)
  have stale: "CACHE_TTL \<le> t' - t \<longrightarrow> getCached t' (setCache t c k v) k = JNull"
    by (simp add: getCached_def setCache_def)
  have never: "k \<notin> set (map (\<lambda>p. fst (snd p)) puts) \<longrightarrow>
      getCached t' (cache_after puts Map.empty) k = JNull"
    by (simp add: getCached_def cache_after_untouched)
  from ttl now fresh stale never show ?thesis by blast
qed

theorem getCached_setCache_witness:
  "getCached 1000 (setCache 1000 Map.empty ''weather_pune'' (JStr ''sunny'')) ''weather_pune''
     = JStr ''sunny'' \<and>
   getCached 300999 (setCache 1000 Map.empty ''weather_pune'' (JStr ''sunny'')) ''weather_pune''
     = JStr ''sunny'' \<and>
   getCached 301000 (setCache 1000 Map.empty ''weather_pune'' (JStr ''sunny'')) ''weather_pune''
     = JNull \<and>
   getCached 5 (cache_after [(1, ''weather_pune'', JNum 3)] Map.empty) ''weather_delhi''
     = JNull"
proof -
  have at_once:
    "getCached 1000 (setCache 1000 Map.empty ''weather_pune'' (JStr ''sunny'')) ''weather_pune''
       = JStr ''sunny''"
    using getCached_setCache [of 1000 Map.empty "''weather_pune''" "JStr ''sunny''" 1000 "[]"]
    by simp
  have fresh:
    "getCached 300999 (setCache 1000 Map.empty ''weather_pune'' (JStr ''sunny'')) ''weather_pune''
       = JStr ''sunny''"
    using getCached_setCache [of 1000 Map.empty "''weather_pune''" "JStr ''sunny''" 300999 "[]"]
    by (simp add: CACHE_TTL_def)
  have stale:
    "getCached 301000 (setCache 1000 Map.empty ''weather_pune'' (JStr ''sunny'')) ''weather_pune''
       = JNull"
    using getCached_setCache [of 1000 Map.empty "''weather_pune''" "JStr ''sunny''" 301000 "[]"]
    by (simp add: CACHE_TTL_def)
  have never:
    "getCached 5 (cache_after [(1, ''weather_pune'', JNum 3)] Map.empty) ''weather_delhi''
       = JNull"
    using getCached_setCache [of 1000 Map.empty "''weather_delhi''" JNull 5
      "[(1, ''weather_pune'', JNum 3)]"]
    by simp
  show ?thesis
    by (intro conjI at_once fresh stale never)
qed

section \<open>Timed request gateway\<close>

text \<open>
  C3. Every call of \<open>apiFetch\<close> hands exactly one request to \<^verbatim>\<open>fetch\<close>. When a
  non-empty token is stored, that request carries the header \<^verbatim>\<open>Authorization\<close> with
  \<^verbatim>\<open>Bearer\<close> and the token. A response whose status is outside 200..299 makes the call
  fail with the error that carries the status, and a rejected \<^verbatim>\<open>fetch\<close> makes it fail
  with the error of the rejection; the call succeeds only with the parsed body of a
  response whose status is in 200..299.
\<close>

theorem apiFetch_single_attempt:
  "\<exists>req. snd (apiFetch storage net url options) = [req] \<and> req_url req = url \<and>
     (\<forall>tk. storage ''cropdoctor_token'' = Some tk \<and> tk \<noteq> [] \<longrightarrow>
        (\<exists>h. opt_headers (req_options req) = Some h \<and>
             h ''Authorization'' = Some (''Bearer '' @ tk))) \<and>
     (\<forall>status body. net req = Responds status body \<and> \<not> (200 \<le> status \<and> status \<le> 299) \<longrightarrow>
        fst (apiFetch storage net url options) = Inl (HTTP_Error status)) \<and>
     (\<forall>err. net req = Rejects err \<longrightarrow> fst (apiFetch storage net url options) = Inl err) \<and>
     (\<forall>v. fst (apiFetch storage net url options) = Inr v \<longleftrightarrow>
        (\<exists>status. net req = Responds status (Some v) \<and> 200 \<le> status \<and> status \<le> 299))"
proof -
  define req where "req = hd (snd (apiFetch storage net url options))"
  have sent: "snd (apiFetch storage net url options) = [req]"
    by (simp add: req_def apiFetch_def Let_def)
  have target: "req_url req = url"
    by (simp add: req_def apiFetch_def Let_def)
  have bearer: "\<exists>h. opt_headers (req_options req) = Some h \<and>
      h ''Authorization'' = Some (''Bearer '' @ tk)"
    if "storage ''cropdoctor_token'' = Some tk \<and> tk \<noteq> []" for tk
    using that by (simp add: req_def apiFetch_def Let_def)
  have status: "fst (apiFetch storage net url options) = Inl (HTTP_Error status)"
    if "net req = Responds status body \<and> \<not> (200 \<le> status \<and> status \<le> 299)" for status body
    using that by (simp add: req_def apiFetch_def Let_def response_ok_def)
  have rejected: "fst (apiFetch storage net url options) = Inl err"
    if "net req = Rejects err" for err
    using that by (simp add: req_def apiFetch_def Let_def)
  have fulfilled: "fst (apiFetch storage net url options) = Inr v \<longleftrightarrow>
      (\<exists>status. net req = Responds status (Some v) \<and> 200 \<le> status \<and> status \<le> 299)" for v
    by (auto simp: req_def apiFetch_def Let_def response_ok_def
        split: fetch_outcome.splits option.splits)
  from sent target bearer status rejected fulfilled show ?thesis
    by blast
qed

theorem apiFetch_single_attempt_witness:
  "fst (apiFetch [''cropdoctor_token'' \<mapsto> ''abc''] (\<lambda>r. Responds 404 None)
         ''/api/weather'' no_options) = Inl (HTTP_Error 404) \<and>
   fst (apiFetch [''cropdoctor_token'' \<mapsto> ''abc''] (\<lambda>r. Rejects AbortError)
         ''/api/weather'' no_options) = Inl AbortError \<and>
   map (\<lambda>r. case opt_headers (req_options r) of None \<Rightarrow> None | Some h \<Rightarrow> h ''Authorization'')
     (snd (apiFetch [''cropdoctor_token'' \<mapsto> ''abc''] (\<lambda>r. Responds 404 None)
         ''/api/weather'' no_options)) = [Some ''Bearer abc'']"
proof -
  obtain req where req:
    "snd (apiFetch [''cropdoctor_token'' \<mapsto> ''abc''] (\<lambda>r. Responds 404 None)
        ''/api/weather'' no_options) = [req]"
    "\<forall>tk. [''cropdoctor_token'' \<mapsto> ''abc''] ''cropdoctor_token'' = Some tk \<and> tk \<noteq> [] \<longrightarrow>
        (\<exists>h. opt_headers (req_options req) = Some h \<and>
             h ''Authorization'' = Some (''Bearer '' @ tk))"
    "\<forall>status body. (\<lambda>r. Responds 404 None) req = Responds status body
        \<and> \<not> (200 \<le> status \<and> status \<le> 299) \<longrightarrow>
        fst (apiFetch [''cropdoctor_token'' \<mapsto> ''abc''] (\<lambda>r. Responds 404 None)
          ''/api/weather'' no_options) = Inl (HTTP_Error status)"
    using apiFetch_single_attempt [of "[''cropdoctor_token'' \<mapsto> ''abc'']"
        "\<lambda>r. Responds 404 None" "''/api/weather''" no_options]
    by blast
  have not_found:
    "fst (apiFetch [''cropdoctor_token'' \<mapsto> ''abc''] (\<lambda>r. Responds 404 None)
        ''/api/weather'' no_options) = Inl (HTTP_Error 404)"
    using req(3) by simp
  obtain h where h: "opt_headers (req_options req) = Some h"
    "h ''Authorization'' = Some (''Bearer abc'')"
    using req(2) by auto
  have header:
    "map (\<lambda>r. case opt_headers (req_options r) of None \<Rightarrow> None | Some h \<Rightarrow> h ''Authorization'')
      (snd (apiFetch [''cropdoctor_token'' \<mapsto> ''abc''] (\<lambda>r. Responds 404 None)
        ''/api/weather'' no_options)) = [Some ''Bearer abc'']"
    using req(1) h by simp
  obtain req' where
    "\<forall>err. (\<lambda>r. Rejects AbortError) req' = Rejects err \<longrightarrow>
        fst (apiFetch [''cropdoctor_token'' \<mapsto> ''abc''] (\<lambda>r. Rejects AbortError)
          ''/api/weather'' no_options) = Inl err"
    using apiFetch_single_attempt [of "[''cropdoctor_token'' \<mapsto> ''abc'']"
        "\<lambda>r. Rejects AbortError" "''/api/weather''" no_options]
    by blast
  then have aborted:
    "fst (apiFetch [''cropdoctor_token'' \<mapsto> ''abc''] (\<lambda>r. Rejects AbortError)
        ''/api/weather'' no_options) = Inl AbortError"
    by simp
  show ?thesis
    by (intro conjI not_found aborted header)
qed

section \<open>Fallback on a failed request\<close>





section \<open>Session load\<close>

lemma loadUserInfo_passed:
  "storage ''cropdoctor_user'' = Some raw \<Longrightarrow> raw \<noteq> [] \<Longrightarrow> parse raw = Some u \<Longrightarrow>
   has_required_fields u \<Longrightarrow> snd (loadUserInfo parse storage) \<in> {Loaded u, Load_threw TypeError}"
  by (simp add: loadUserInfo_def has_required_fields_def)

text \<open>
  C4. \<open>loadUserInfo\<close> redirects to the login page exactly when the stored record is
  absent or empty, does not parse, or parses to a value that fails the required-field
  check (a truthy record with a truthy \<^verbatim>\<open>name\<close>); a record without a \<^verbatim>\<open>name\<close> fails
  that check. In the last two cases the stored record is removed as well. A record is
  loaded as the current user only if it was stored, parsed, and passed the check.
\<close>

theorem loadUserInfo_fails_closed:
  "(snd (loadUserInfo parse storage) = Redirect_to_login \<longleftrightarrow>
      storage ''cropdoctor_user'' = None \<or> storage ''cropdoctor_user'' = Some [] \<or>
      (\<exists>raw. storage ''cropdoctor_user'' = Some raw \<and>
         (parse raw = None \<or> (\<exists>u. parse raw = Some u \<and> \<not> has_required_fields u)))) \<and>
   (\<forall>u. js_prop u ''name'' = JUndefined \<longrightarrow> \<not> has_required_fields u) \<and>
   (\<forall>raw. storage ''cropdoctor_user'' = Some raw \<and> raw \<noteq> [] \<and>
        (parse raw = None \<or> (\<exists>u. parse raw = Some u \<and> \<not> has_required_fields u)) \<longrightarrow>
        fst (loadUserInfo parse storage) ''cropdoctor_user'' = None) \<and>
   (\<forall>u. snd (loadUserInfo parse storage) = Loaded u \<longrightarrow>
        (\<exists>raw. storage ''cropdoctor_user'' = Some raw \<and> raw \<noteq> [] \<and> parse raw = Some u \<and>
           has_required_fields u))"
proof (intro conjI allI impI)
  show "snd (loadUserInfo parse storage) = Redirect_to_login \<longleftrightarrow>
      storage ''cropdoctor_user'' = None \<or> storage ''cropdoctor_user'' = Some [] \<or>
      (\<exists>raw. storage ''cropdoctor_user'' = Some raw \<and>
         (parse raw = None \<or> (\<exists>u. parse raw = Some u \<and> \<not> has_required_fields u)))"
  proof (cases "storage ''cropdoctor_user''")
    case None
    then show ?thesis by (simp add: loadUserInfo_def)
  next
    case (Some raw)
    show ?thesis
    proof (cases "raw = []")
      case True
      with Some show ?thesis by (simp add: loadUserInfo_def)
    next
      case False
      show ?thesis
      proof (cases "parse raw")
        case None
        with Some False show ?thesis by (simp add: loadUserInfo_def)
      next
        case (Some u)
        with \<open>storage ''cropdoctor_user'' = Some raw\<close> False show ?thesis
          by (simp add: loadUserInfo_def has_required_fields_def)
      qed
    qed
  qed
next
  fix u
  assume "js_prop u ''name'' = JUndefined"
  then show "\<not> has_required_fields u"
    by (simp add: has_required_fields_def)
next
  fix raw
  assume "storage ''cropdoctor_user'' = Some raw \<and> raw \<noteq> [] \<and>
    (parse raw = None \<or> (\<exists>u. parse raw = Some u \<and> \<not> has_required_fields u))"
  then show "fst (loadUserInfo parse storage) ''cropdoctor_user'' = None"
    by (auto simp: loadUserInfo_def has_required_fields_def)
next
  fix u
  assume "snd (loadUserInfo parse storage) = Loaded u"
  then show "\<exists>raw. storage ''cropdoctor_user'' = Some raw \<and> raw \<noteq> [] \<and> parse raw = Some u \<and>
      has_required_fields u"
    by (auto simp: loadUserInfo_def has_required_fields_def split: option.splits if_splits)
qed

theorem loadUserInfo_fails_closed_witness:
  \<open>snd (loadUserInfo (\<lambda>s. if s = ''{"name":"Asha"}'' then Some (JObj [(''name'', JStr ''Asha'')])
                         else if s = ''{"role":"farmer"}'' then Some (JObj [(''role'', JStr ''farmer'')])
                         else None)
         Map.empty) = Redirect_to_login \<and>
   snd (loadUserInfo (\<lambda>s. if s = ''{"name":"Asha"}'' then Some (JObj [(''name'', JStr ''Asha'')])
                         else if s = ''{"role":"farmer"}'' then Some (JObj [(''role'', JStr ''farmer'')])
                         else None)
         [''cropdoctor_user'' \<mapsto> ''{"name":'']) = Redirect_to_login \<and>
   snd (loadUserInfo (\<lambda>s. if s = ''{"name":"Asha"}'' then Some (JObj [(''name'', JStr ''Asha'')])
                         else if s = ''{"role":"farmer"}'' then Some (JObj [(''role'', JStr ''farmer'')])
                         else None)
         [''cropdoctor_user'' \<mapsto> ''{"role":"farmer"}'']) = Redirect_to_login \<and>
   fst (loadUserInfo (\<lambda>s. if s = ''{"name":"Asha"}'' then Some (JObj [(''name'', JStr ''Asha'')])
                         else if s = ''{"role":"farmer"}'' then Some (JObj [(''role'', JStr ''farmer'')])
                         else None)
         [''cropdoctor_user'' \<mapsto> ''{"role":"farmer"}'']) ''cropdoctor_user'' = None \<and>
   snd (loadUserInfo (\<lambda>s. if s = ''{"name":"Asha"}'' then Some (JObj [(''name'', JStr ''Asha'')])
                         else if s = ''{"role":"farmer"}'' then Some (JObj [(''role'', JStr ''farmer'')])
                         else None)
         [''cropdoctor_user'' \<mapsto> ''{"name":"Asha"}''])
     = Loaded (JObj [(''name'', JStr ''Asha'')]) \<and>
   has_required_fields (JObj [(''name'', JStr ''Asha'')])\<close>
proof -
  let ?parse = \<open>\<lambda>s. if s = ''{"name":"Asha"}'' then Some (JObj [(''name'', JStr ''Asha'')])
                         else if s = ''{"role":"farmer"}'' then Some (JObj [(''role'', JStr ''farmer'')])
                         else None\<close>
  have absent: "snd (loadUserInfo ?parse Map.empty) = Redirect_to_login"
    using loadUserInfo_fails_closed [of ?parse Map.empty] by simp
  have garbled:
    \<open>snd (loadUserInfo ?parse [''cropdoctor_user'' \<mapsto> ''{"name":'']) = Redirect_to_login\<close>
    using loadUserInfo_fails_closed [of ?parse \<open>[''cropdoctor_user'' \<mapsto> ''{"name":'']\<close>]
    by simp
  have nameless_no_field: \<open>\<not> has_required_fields (JObj [(''role'', JStr ''farmer'')])\<close>
    using loadUserInfo_fails_closed [of ?parse Map.empty]
    by (simp add: js_prop_def)
  have nameless:
    \<open>snd (loadUserInfo ?parse [''cropdoctor_user'' \<mapsto> ''{"role":"farmer"}''])
       = Redirect_to_login\<close>
    using loadUserInfo_fails_closed
      [of ?parse \<open>[''cropdoctor_user'' \<mapsto> ''{"role":"farmer"}'']\<close>]
      nameless_no_field
    by simp
  have removed:
    \<open>fst (loadUserInfo ?parse [''cropdoctor_user'' \<mapsto> ''{"role":"farmer"}''])
       ''cropdoctor_user'' = None\<close>
    using loadUserInfo_fails_closed
      [of ?parse \<open>[''cropdoctor_user'' \<mapsto> ''{"role":"farmer"}'']\<close>]
      nameless_no_field
    by simp
  have loaded:
    \<open>snd (loadUserInfo ?parse [''cropdoctor_user'' \<mapsto> ''{"name":"Asha"}''])
       = Loaded (JObj [(''name'', JStr ''Asha'')])\<close>
    by (simp add: loadUserInfo_def js_prop_def is_string_def)
  have checked: \<open>has_required_fields (JObj [(''name'', JStr ''Asha'')])\<close>
    using loadUserInfo_fails_closed
      [of ?parse \<open>[''cropdoctor_user'' \<mapsto> ''{"name":"Asha"}'']\<close>] loaded
    by simp
  show ?thesis
    by (intro conjI absent garbled nameless removed loaded checked)
qed

section \<open>Yield fallback\<close>

lemma and_then_iff: "and_then field cond \<longleftrightarrow> (\<exists>x. field = Some x \<and> x \<noteq> 0 \<and> cond x)"
  by (cases field) (simp_all add: and_then_def)

text \<open>
  The yield is the base yield times one factor for each adjustment. The temperature
  factor is 0.85 exactly when the temperature is a number other than 0 that lies
  outside \<open>[10, 35]\<close>.
\<close>

lemma yield_y_factors:
  "yield_y d jitter =
     map_option
       (\<lambda>base. base
          * (if and_then (y_temperature d) (\<lambda>t. t > 35 \<or> t < 10) then 0.85 else 1)
          * (if and_then (y_rainfall d) (\<lambda>r. r > 300) then 0.9 else 1)
          * (if and_then (y_rainfall d) (\<lambda>r. r < 50) then 0.8 else 1)
          * (0.95 + jitter * 0.1))
       (yield_base d)"
  by (cases "yield_base d") (simp_all add: yield_y_def Let_def js_times_def)

lemma temperature_penalty_applies:
  "and_then (y_temperature d) (\<lambda>t. t > 35 \<or> t < 10) \<longleftrightarrow>
     (\<exists>t. y_temperature d = Some t \<and> t \<noteq> 0 \<and> (t < 10 \<or> 35 < t))"
  by (auto simp: and_then_iff)

text \<open>
  C5. At a temperature of 0 degrees, which is outside \<open>[10, 35]\<close>, the fallback
  applies no temperature penalty: for wheat on loamy soil in the rabi season with the
  jitter factor at 1, the yield per hectare is \<open>3.8 * 1.1 * 0.95 = 3.971\<close>, whether
  the request holds 0 or what \<^verbatim>\<open>parseFloat(field) || null\<close> makes of 0, and it is the
  yield at 20 degrees. At 9.9, at 35.1 and at -1 degrees the penalty applies, and at 10
  and at 35 degrees it does not.
\<close>

theorem localYieldPrediction_zero_temperature:
  "yield_y \<lparr>y_crop = ''wheat'', y_soil = ''loamy'', y_area = 2, y_season = ''rabi'',
             y_sowing_date = ''2024-11-01'', y_harvest_date = None, y_rainfall = None,
             y_temperature = Some 0\<rparr> (1 / 2) = Some 3.971 \<and>
   yield_y \<lparr>y_crop = ''wheat'', y_soil = ''loamy'', y_area = 2, y_season = ''rabi'',
             y_sowing_date = ''2024-11-01'', y_harvest_date = None, y_rainfall = None,
             y_temperature = or_null (Some 0)\<rparr> (1 / 2) = Some 3.971 \<and>
   yield_y \<lparr>y_crop = ''wheat'', y_soil = ''loamy'', y_area = 2, y_season = ''rabi'',
             y_sowing_date = ''2024-11-01'', y_harvest_date = None, y_rainfall = None,
             y_temperature = Some 20\<rparr> (1 / 2) = Some 3.971 \<and>
   yield_y \<lparr>y_crop = ''wheat'', y_soil = ''loamy'', y_area = 2, y_season = ''rabi'',
             y_sowing_date = ''2024-11-01'', y_harvest_date = None, y_rainfall = None,
             y_temperature = Some 10\<rparr> (1 / 2) = Some 3.971 \<and>
   yield_y \<lparr>y_crop = ''wheat'', y_soil = ''loamy'', y_area = 2, y_season = ''rabi'',
             y_sowing_date = ''2024-11-01'', y_harvest_date = None, y_rainfall = None,
             y_temperature = Some 35\<rparr> (1 / 2) = Some 3.971 \<and>
   yield_y \<lparr>y_crop = ''wheat'', y_soil = ''loamy'', y_area = 2, y_season = ''rabi'',
             y_sowing_date = ''2024-11-01'', y_harvest_date = None, y_rainfall = None,
             y_temperature = Some 9.9\<rparr> (1 / 2) = Some (3.971 * 0.85) \<and>
   yield_y \<lparr>y_crop = ''wheat'', y_soil = ''loamy'', y_area = 2, y_season = ''rabi'',
             y_sowing_date = ''2024-11-01'', y_harvest_date = None, y_rainfall = None,
             y_temperature = Some 35.1\<rparr> (1 / 2) = Some (3.971 * 0.85) \<and>
   yield_y \<lparr>y_crop = ''wheat'', y_soil = ''loamy'', y_area = 2, y_season = ''rabi'',
             y_sowing_date = ''2024-11-01'', y_harvest_date = None, y_rainfall = None,
             y_temperature = Some (- 1)\<rparr> (1 / 2) = Some (3.971 * 0.85)"
  by (simp add: yield_y_def yield_base_def js_times_def lookup_or_def and_then_def or_null_def
      baseYields_def soilMult_def seasonMult_def)

section \<open>Irrigation fallback\<close>

lemma lookup_or_inherited:
  "table key = None \<Longrightarrow> inherited key \<Longrightarrow> lookup_or table key dflt = None"
  by (simp add: lookup_or_def)

lemma lookup_or_defined:
  "\<not> inherited key \<Longrightarrow> \<exists>v. lookup_or table key dflt = Some v"
  by (simp add: lookup_or_def split: option.splits)

lemma waterNeeds_whole:
  "lookup_or waterNeeds c 4000 = Some a \<Longrightarrow> a = 500 * of_int \<lfloor>a / 500\<rfloor>"
proof -
  have "case lookup_or waterNeeds c 4000 of
          None \<Rightarrow> True | Some x \<Rightarrow> x = 500 * of_int \<lfloor>x / 500\<rfloor>"
    by (simp add: lookup_or_def waterNeeds_def)
  then show "lookup_or waterNeeds c 4000 = Some a \<Longrightarrow> a = 500 * of_int \<lfloor>a / 500\<rfloor>"
    by simp
qed

lemma stageMult_tenths:
  "lookup_or stageMult s 1.0 = Some b \<Longrightarrow> b = of_int \<lfloor>b * 10\<rfloor> / 10"
proof -
  have "case lookup_or stageMult s 1.0 of
          None \<Rightarrow> True | Some x \<Rightarrow> x = of_int \<lfloor>x * 10\<rfloor> / 10"
    by (simp add: lookup_or_def stageMult_def)
  then show "lookup_or stageMult s 1.0 = Some b \<Longrightarrow> b = of_int \<lfloor>b * 10\<rfloor> / 10"
    by simp
qed

lemma soilDrain_tenths:
  "lookup_or soilDrain s 1.0 = Some c \<Longrightarrow> c = of_int \<lfloor>c * 10\<rfloor> / 10"
proof -
  have "case lookup_or soilDrain s 1.0 of
          None \<Rightarrow> True | Some x \<Rightarrow> x = of_int \<lfloor>x * 10\<rfloor> / 10"
    by (simp add: lookup_or_def soilDrain_def)
  then show "lookup_or soilDrain s 1.0 = Some c \<Longrightarrow> c = of_int \<lfloor>c * 10\<rfloor> / 10"
    by simp
qed

lemma Math_round_of_int: "Math_round (of_int n) = n"
  by (simp add: Math_round_def)

lemma product_rounds:
  assumes "lookup_or waterNeeds crop 4000 = Some a"
    and "lookup_or stageMult stage 1.0 = Some b"
    and "lookup_or soilDrain soil 1.0 = Some c"
  shows "of_int (Math_round (a * b * c)) = a * b * c"
proof -
  have a: "a = 500 * of_int \<lfloor>a / 500\<rfloor>"
    using assms(1) by (rule waterNeeds_whole)
  have b: "b = of_int \<lfloor>b * 10\<rfloor> / 10"
    using assms(2) by (rule stageMult_tenths)
  have c: "c = of_int \<lfloor>c * 10\<rfloor> / 10"
    using assms(3) by (rule soilDrain_tenths)
  have "a * b * c = (500 * of_int \<lfloor>a / 500\<rfloor>) * (of_int \<lfloor>b * 10\<rfloor> / 10)
      * (of_int \<lfloor>c * 10\<rfloor> / 10)"
    using a b c by simp
  also have "\<dots> = of_int (5 * \<lfloor>a / 500\<rfloor> * \<lfloor>b * 10\<rfloor> * \<lfloor>c * 10\<rfloor>)"
    by simp
  finally have "a * b * c = of_int (5 * \<lfloor>a / 500\<rfloor> * \<lfloor>b * 10\<rfloor> * \<lfloor>c * 10\<rfloor>)" .
  then show ?thesis
    by (simp only: Math_round_of_int)
qed

text \<open>
  For a crop, a stage and a soil that are not names inherited from
  \<^verbatim>\<open>Object.prototype\<close>, the water per day is the product of the water need of the
  crop, the multiplier of the stage and the drainage factor of the soil, each with its
  default for a name that its table does not list; rounding does not change it, the
  product being a whole number. Under an inherited name the product is \<^verbatim>\<open>NaN\<close>.
\<close>

lemma localIrrigationCalc_water:
  assumes "\<not> inherited (irr_crop d)" "\<not> inherited (irr_stage d)" "\<not> inherited (irr_soil d)"
  shows "\<exists>a b c. lookup_or waterNeeds (irr_crop d) 4000 = Some a \<and>
      lookup_or stageMult (irr_stage d) 1.0 = Some b \<and>
      lookup_or soilDrain (irr_soil d) 1.0 = Some c \<and>
      map_option real_of_int (water_per_day (localIrrigationCalc d)) = Some (a * b * c)"
proof -
  from assms obtain a b c where abc: "lookup_or waterNeeds (irr_crop d) 4000 = Some a"
    "lookup_or stageMult (irr_stage d) 1.0 = Some b"
    "lookup_or soilDrain (irr_soil d) 1.0 = Some c"
    using lookup_or_defined by metis
  then have "water_per_day (localIrrigationCalc d) = Some (Math_round (a * b * c))"
    by (simp add: localIrrigationCalc_def Let_def irrigation_water_def js_times_def)
  with product_rounds [OF abc] abc show ?thesis
    by simp
qed

lemma localIrrigationCalc_water_inherited:
  "waterNeeds (irr_crop d) = None \<Longrightarrow> inherited (irr_crop d) \<Longrightarrow>
   water_per_day (localIrrigationCalc d) = None"
  by (simp add: localIrrigationCalc_def Let_def irrigation_water_def js_times_def
      lookup_or_inherited)

text \<open>
  The schedule is 72h above a moisture of 60, 48h above 40 and up to 60, and 24h
  otherwise; the status is the critical text below 30, the low text from 30 and below
  40, the high text above 70, and Adequate from 40 to 70.
\<close>

lemma localIrrigationCalc_schedule:
  "schedule (localIrrigationCalc d) = ''72h'' \<longleftrightarrow> irr_moisture d > 60"
  "schedule (localIrrigationCalc d) = ''48h'' \<longleftrightarrow> 40 < irr_moisture d \<and> irr_moisture d \<le> 60"
  "schedule (localIrrigationCalc d) = ''24h'' \<longleftrightarrow> irr_moisture d \<le> 40"
  by (simp_all add: localIrrigationCalc_def Let_def)

lemma localIrrigationCalc_status:
  "moisture_status (localIrrigationCalc d) = ''Critical '' @ dash_literal @ '' Irrigate Immediately''
     \<longleftrightarrow> irr_moisture d < 30"
  "moisture_status (localIrrigationCalc d) = ''Low '' @ dash_literal @ '' Schedule Irrigation''
     \<longleftrightarrow> 30 \<le> irr_moisture d \<and> irr_moisture d < 40"
  "moisture_status (localIrrigationCalc d) = ''High '' @ dash_literal @ '' Reduce Irrigation''
     \<longleftrightarrow> irr_moisture d > 70"
  "moisture_status (localIrrigationCalc d) = ''Adequate''
     \<longleftrightarrow> 40 \<le> irr_moisture d \<and> irr_moisture d \<le> 70"
  by (auto simp: localIrrigationCalc_def Let_def dash_literal_def)

text \<open>
  C6. For a crop, a stage and a soil that are not names inherited from
  \<^verbatim>\<open>Object.prototype\<close>, the water per day that \<open>localIrrigationCalc\<close> returns is the
  product of the water need of the crop, the multiplier of the stage and the drainage
  factor of the soil. For every request the schedule is 72h above a moisture of 60, 48h
  above 40 and up to 60, and 24h otherwise, and the status is the literal of the
  critical bucket below 30, of the low bucket from 30 and below 40, of the high bucket
  above 70, and Adequate from 40 to 70. For rice on clay at the vegetative stage with
  moisture 25 the result is 24h, the literal of the critical bucket and
  \<open>6000 * 1.0 * 0.7 = 4200\<close>.
\<close>

theorem localIrrigationCalc_buckets:
  "(\<not> inherited (irr_crop d) \<and> \<not> inherited (irr_stage d) \<and> \<not> inherited (irr_soil d) \<longrightarrow>
      (\<exists>a b c. lookup_or waterNeeds (irr_crop d) 4000 = Some a \<and>
         lookup_or stageMult (irr_stage d) 1.0 = Some b \<and>
         lookup_or soilDrain (irr_soil d) 1.0 = Some c \<and>
         map_option real_of_int (water_per_day (localIrrigationCalc d)) = Some (a * b * c))) \<and>
   (schedule (localIrrigationCalc d) = ''72h'' \<longleftrightarrow> irr_moisture d > 60) \<and>
   (schedule (localIrrigationCalc d) = ''48h'' \<longleftrightarrow> 40 < irr_moisture d \<and> irr_moisture d \<le> 60) \<and>
   (schedule (localIrrigationCalc d) = ''24h'' \<longleftrightarrow> irr_moisture d \<le> 40) \<and>
   (moisture_status (localIrrigationCalc d) = ''Critical '' @ dash_literal @ '' Irrigate Immediately''
      \<longleftrightarrow> irr_moisture d < 30) \<and>
   (moisture_status (localIrrigationCalc d) = ''Low '' @ dash_literal @ '' Schedule Irrigation''
      \<longleftrightarrow> 30 \<le> irr_moisture d \<and> irr_moisture d < 40) \<and>
   (moisture_status (localIrrigationCalc d) = ''High '' @ dash_literal @ '' Reduce Irrigation''
      \<longleftrightarrow> irr_moisture d > 70) \<and>
   (moisture_status (localIrrigationCalc d) = ''Adequate''
      \<longleftrightarrow> 40 \<le> irr_moisture d \<and> irr_moisture d \<le> 70) \<and>
   lookup_or waterNeeds ''rice'' 4000 = Some 6000 \<and>
   lookup_or stageMult ''vegetative'' 1.0 = Some 1.0 \<and>
   lookup_or soilDrain ''clay'' 1.0 = Some 0.7 \<and>
   water_per_day (localIrrigationCalc
     \<lparr>irr_crop = ''rice'', irr_soil = ''clay'', irr_moisture = 25,
      irr_stage = ''vegetative''\<rparr>) = Some 4200 \<and>
   schedule (localIrrigationCalc
     \<lparr>irr_crop = ''rice'', irr_soil = ''clay'', irr_moisture = 25,
      irr_stage = ''vegetative''\<rparr>) = ''24h'' \<and>
   moisture_status (localIrrigationCalc
     \<lparr>irr_crop = ''rice'', irr_soil = ''clay'', irr_moisture = 25,
      irr_stage = ''vegetative''\<rparr>) = ''Critical '' @ dash_literal @ '' Irrigate Immediately''"
proof -
  have water: "\<not> inherited (irr_crop d) \<and> \<not> inherited (irr_stage d) \<and> \<not> inherited (irr_soil d) \<longrightarrow>
      (\<exists>a b c. lookup_or waterNeeds (irr_crop d) 4000 = Some a \<and>
         lookup_or stageMult (irr_stage d) 1.0 = Some b \<and>
         lookup_or soilDrain (irr_soil d) 1.0 = Some c \<and>
         map_option real_of_int (water_per_day (localIrrigationCalc d)) = Some (a * b * c))"
    using localIrrigationCalc_water [of d] by blast
  have tables:
    "lookup_or waterNeeds ''rice'' 4000 = Some 6000"
    "lookup_or stageMult ''vegetative'' 1.0 = Some 1.0"
    "lookup_or soilDrain ''clay'' 1.0 = Some 0.7"
    by (simp_all add: lookup_or_def waterNeeds_def stageMult_def soilDrain_def)
  have scenario:
    "water_per_day (localIrrigationCalc
       \<lparr>irr_crop = ''rice'', irr_soil = ''clay'', irr_moisture = 25,
        irr_stage = ''vegetative''\<rparr>) = Some 4200"
    "schedule (localIrrigationCalc
       \<lparr>irr_crop = ''rice'', irr_soil = ''clay'', irr_moisture = 25,
        irr_stage = ''vegetative''\<rparr>) = ''24h''"
    "moisture_status (localIrrigationCalc
       \<lparr>irr_crop = ''rice'', irr_soil = ''clay'', irr_moisture = 25,
        irr_stage = ''vegetative''\<rparr>) = ''Critical '' @ dash_literal @ '' Irrigate Immediately''"
    by (simp_all add: localIrrigationCalc_def Let_def irrigation_water_def js_times_def
        Math_round_def lookup_or_def waterNeeds_def stageMult_def soilDrain_def)
  show ?thesis
    by (intro conjI water localIrrigationCalc_schedule localIrrigationCalc_status tables scenario)
qed

theorem localIrrigationCalc_buckets_witness:
  "\<not> inherited ''rice'' \<and> \<not> inherited ''vegetative'' \<and> \<not> inherited ''clay'' \<and>
   map_option real_of_int (water_per_day (localIrrigationCalc
     \<lparr>irr_crop = ''rice'', irr_soil = ''clay'', irr_moisture = 25,
      irr_stage = ''vegetative''\<rparr>)) = Some (6000 * 1.0 * 0.7)"
proof -
  let ?d = "\<lparr>irr_crop = ''rice'', irr_soil = ''clay'', irr_moisture = 25,
      irr_stage = ''vegetative''\<rparr>"
  have names: "\<not> inherited ''rice''" "\<not> inherited ''vegetative''" "\<not> inherited ''clay''"
    by (simp_all add: inherited_def object_prototype_names_def)
  with localIrrigationCalc_buckets [of ?d]
  obtain a b c where abc: "lookup_or waterNeeds ''rice'' 4000 = Some a"
    "lookup_or stageMult ''vegetative'' 1.0 = Some b"
    "lookup_or soilDrain ''clay'' 1.0 = Some c"
    "map_option real_of_int (water_per_day (localIrrigationCalc ?d)) = Some (a * b * c)"
    by auto
  from localIrrigationCalc_buckets [of ?d] abc(1,2,3)
  have "a = 6000" "b = 1.0" "c = 0.7"
    by simp_all
  with abc(4) have water:
    "map_option real_of_int (water_per_day (localIrrigationCalc ?d)) = Some (6000 * 1.0 * 0.7)"
    by simp
  show ?thesis
    by (intro conjI names water)
qed

text \<open>
  For the same request the status that the module returns is not the text with the em
  dash (\<open>E2 80 94\<close>): between the words its literal has the seven bytes
  \<open>E2 80 9A C3 84 C3 AE\<close>. And for a crop named \<^verbatim>\<open>constructor\<close>, which the table of water
  needs inherits, the water per day is \<^verbatim>\<open>NaN\<close>, not a product of table entries.
\<close>

theorem localIrrigationCalc_counterexample:
  "moisture_status (localIrrigationCalc
     \<lparr>irr_crop = ''rice'', irr_soil = ''clay'', irr_moisture = 25,
      irr_stage = ''vegetative''\<rparr>)
     = ''Critical '' @ [CHR 0xE2, CHR 0x80, CHR 0x9A, CHR 0xC3, CHR 0x84, CHR 0xC3, CHR 0xAE]
         @ '' Irrigate Immediately'' \<and>
   moisture_status (localIrrigationCalc
     \<lparr>irr_crop = ''rice'', irr_soil = ''clay'', irr_moisture = 25,
      irr_stage = ''vegetative''\<rparr>)
     \<noteq> ''Critical '' @ em_dash @ '' Irrigate Immediately'' \<and>
   em_dash = [CHR 0xE2, CHR 0x80, CHR 0x94] \<and>
   water_per_day (localIrrigationCalc
     \<lparr>irr_crop = ''constructor'', irr_soil = ''clay'', irr_moisture = 25,
      irr_stage = ''vegetative''\<rparr>) = None"
proof -
  let ?d = "\<lparr>irr_crop = ''rice'', irr_soil = ''clay'', irr_moisture = 25,
      irr_stage = ''vegetative''\<rparr>"
  have status: "moisture_status (localIrrigationCalc ?d)
      = ''Critical '' @ [CHR 0xE2, CHR 0x80, CHR 0x9A, CHR 0xC3, CHR 0x84, CHR 0xC3, CHR 0xAE]
          @ '' Irrigate Immediately''"
    by (simp add: localIrrigationCalc_def Let_def dash_literal_def)
  have differs: "moisture_status (localIrrigationCalc ?d)
      \<noteq> ''Critical '' @ em_dash @ '' Irrigate Immediately''"
    by (simp add: localIrrigationCalc_def Let_def dash_literal_def em_dash_def)
  have dash: "em_dash = [CHR 0xE2, CHR 0x80, CHR 0x94]"
    by (simp add: em_dash_def)
  have nan: "water_per_day (localIrrigationCalc
     \<lparr>irr_crop = ''constructor'', irr_soil = ''clay'', irr_moisture = 25,
      irr_stage = ''vegetative''\<rparr>) = None"
    by (simp add: localIrrigationCalc_water_inherited waterNeeds_def inherited_def
        object_prototype_names_def)
  show ?thesis
    by (intro conjI status differs dash nan)
qed

section \<open>Fertilizer fallback\<close>

text \<open>
  C7. For a crop that is neither one of the keys \<^verbatim>\<open>rice\<close>, \<^verbatim>\<open>wheat\<close> and \<^verbatim>\<open>corn\<close> of the
  table nor a name that the table inherits from \<^verbatim>\<open>Object.prototype\<close>,
  \<open>localFertilizerCalc\<close> returns the N, P and K entries of the rice row, in that order;
  for each of the three keys it returns the N, P and K entries of that crop's row.
\<close>

theorem localFertilizerCalc_rows:
  "dom db = {''rice'', ''wheat'', ''corn''} \<and>
   (fert_crop d \<notin> dom db \<and> \<not> inherited (fert_crop d) \<longrightarrow>
      fertilizers (localFertilizerCalc d)
        = [Some (row_n db_rice), Some (row_p db_rice), Some (row_k db_rice)]) \<and>
   (\<forall>row. db (fert_crop d) = Some row \<longrightarrow>
      fertilizers (localFertilizerCalc d) = [Some (row_n row), Some (row_p row), Some (row_k row)]) \<and>
   db ''rice'' = Some db_rice \<and> db ''wheat'' = Some db_wheat \<and> db ''corn'' = Some db_corn"
proof -
  have keys: "dom db = {''rice'', ''wheat'', ''corn''}"
    by (auto simp: db_def split: if_splits)
  have other: "fert_crop d \<notin> dom db \<and> \<not> inherited (fert_crop d) \<longrightarrow>
      fertilizers (localFertilizerCalc d)
        = [Some (row_n db_rice), Some (row_p db_rice), Some (row_k db_rice)]"
    by (auto simp: localFertilizerCalc_def Let_def)
  have listed: "\<forall>row. db (fert_crop d) = Some row \<longrightarrow>
      fertilizers (localFertilizerCalc d) = [Some (row_n row), Some (row_p row), Some (row_k row)]"
    by (simp add: localFertilizerCalc_def Let_def)
  have rows: "db ''rice'' = Some db_rice" "db ''wheat'' = Some db_wheat"
    "db ''corn'' = Some db_corn"
    by (simp_all add: db_def)
  show ?thesis
    by (intro conjI keys other listed rows)
qed

theorem localFertilizerCalc_rows_witness:
  "map (map_option f_dosage) (fertilizers (localFertilizerCalc
      \<lparr>fert_crop = ''potato'', fert_soil = ''loamy'', fert_area = 1, fert_stage = ''seedling''\<rparr>))
     = [Some ''120 kg/ha'', Some ''60 kg/ha'', Some ''40 kg/ha''] \<and>
   map (map_option f_name) (fertilizers (localFertilizerCalc
      \<lparr>fert_crop = ''wheat'', fert_soil = ''loamy'', fert_area = 1, fert_stage = ''seedling''\<rparr>))
     = [Some ''Urea (N)'', Some ''SSP (P)'', Some ''MOP (K)'']"
proof -
  let ?potato = "\<lparr>fert_crop = ''potato'', fert_soil = ''loamy'', fert_area = 1,
    fert_stage = ''seedling''\<rparr>"
  let ?wheat = "\<lparr>fert_crop = ''wheat'', fert_soil = ''loamy'', fert_area = 1,
    fert_stage = ''seedling''\<rparr>"
  have "\<not> inherited ''potato''"
    by (simp add: inherited_def object_prototype_names_def)
  then have "fertilizers (localFertilizerCalc ?potato)
      = [Some (row_n db_rice), Some (row_p db_rice), Some (row_k db_rice)]"
    using localFertilizerCalc_rows [of ?potato] by simp
  then have potato: "map (map_option f_dosage) (fertilizers (localFertilizerCalc ?potato))
      = [Some ''120 kg/ha'', Some ''60 kg/ha'', Some ''40 kg/ha'']"
    by (simp add: db_rice_def)
  have "fertilizers (localFertilizerCalc ?wheat)
      = [Some (row_n db_wheat), Some (row_p db_wheat), Some (row_k db_wheat)]"
    using localFertilizerCalc_rows [of ?wheat] by simp
  then have wheat: "map (map_option f_name) (fertilizers (localFertilizerCalc ?wheat))
      = [Some ''Urea (N)'', Some ''SSP (P)'', Some ''MOP (K)'']"
    by (simp add: db_wheat_def)
  show ?thesis
    by (intro conjI potato wheat)
qed

text \<open>
  The crop name \<^verbatim>\<open>constructor\<close> is none of the three keys, and the table inherits a
  member of that name: the three entries returned are \<^verbatim>\<open>undefined\<close>, not the rice row.
\<close>

theorem localFertilizerCalc_inherited_name:
  "''constructor'' \<notin> {''rice'', ''wheat'', ''corn''} \<and>
   fertilizers (localFertilizerCalc
      \<lparr>fert_crop = ''constructor'', fert_soil = ''loamy'', fert_area = 1,
       fert_stage = ''seedling''\<rparr>) = [None, None, None] \<and>
   fertilizers (localFertilizerCalc
      \<lparr>fert_crop = ''constructor'', fert_soil = ''loamy'', fert_area = 1,
       fert_stage = ''seedling''\<rparr>)
     \<noteq> [Some (row_n db_rice), Some (row_p db_rice), Some (row_k db_rice)]"
  by (simp add: localFertilizerCalc_def Let_def db_def inherited_def object_prototype_names_def)

section \<open>Admin history batch\<close>

lemma Promise_all_caught:
  "Promise_all (map (\<lambda>x. promise_catch (pr x) (h x)) xs)
     = Inr (map (\<lambda>x. case pr x of Inl e \<Rightarrow> h x e | Inr a \<Rightarrow> a) xs)"
  by (induction xs) (simp_all add: promise_catch_def split: sum.splits)

lemma analysisCounts_entries:
  "analysisCounts storage net farmers =
     Inr (map (\<lambda>f. case promise_then (fetch_analysis storage net f) (analysis_entry f) of
                      Inl e \<Rightarrow> placeholder f
                    | Inr entry \<Rightarrow> entry) farmers)"
  unfolding analysisCounts_def by (rule Promise_all_caught)

lemma analysis_entry_array:
  "analysis_entry f (JArr xs) =
     Inr (JObj [(''id'', farmer_id f), (''count'', JNum (real (length xs))),
                (''latest'', js_or (case xs of [] \<Rightarrow> JUndefined | x # _ \<Rightarrow> x) JNull)])"
  by (simp add: analysis_entry_def)

text \<open>
  C8. The batch of history lookups never rejects: it fulfils with one entry per
  farmer, in the order of the farmers. The entry of a farmer whose lookup failed is the
  placeholder with count 0 and no latest analysis. The entry of a farmer whose lookup
  returned an array carries the farmer's id, the length of the array as count and its
  first element (or \<^verbatim>\<open>null\<close>) as latest; more generally a lookup that succeeded
  contributes the entry built from its response, and the placeholder when building
  the entry throws (the response was \<^verbatim>\<open>null\<close>).
\<close>

theorem analysisCounts_never_rejects:
  "\<exists>entries. analysisCounts storage net farmers = Inr entries \<and>
     length entries = length farmers \<and>
     (\<forall>i < length farmers.
        (\<forall>e. fetch_analysis storage net (farmers ! i) = Inl e \<longrightarrow>
           entries ! i = placeholder (farmers ! i)) \<and>
        (\<forall>xs. fetch_analysis storage net (farmers ! i) = Inr (JArr xs) \<longrightarrow>
           entries ! i =
             JObj [(''id'', farmer_id (farmers ! i)), (''count'', JNum (real (length xs))),
                   (''latest'', js_or (case xs of [] \<Rightarrow> JUndefined | x # _ \<Rightarrow> x) JNull)]) \<and>
        (\<forall>a entry. fetch_analysis storage net (farmers ! i) = Inr a \<and>
           analysis_entry (farmers ! i) a = Inr entry \<longrightarrow> entries ! i = entry) \<and>
        (\<forall>a e. fetch_analysis storage net (farmers ! i) = Inr a \<and>
           analysis_entry (farmers ! i) a = Inl e \<longrightarrow> entries ! i = placeholder (farmers ! i)))"
proof -
  define entries where
    "entries = map (\<lambda>f. case promise_then (fetch_analysis storage net f) (analysis_entry f) of
                      Inl e \<Rightarrow> placeholder f
                    | Inr entry \<Rightarrow> entry) farmers"
  have fulfilled: "analysisCounts storage net farmers = Inr entries"
    unfolding entries_def by (rule analysisCounts_entries)
  have len: "length entries = length farmers"
    by (simp add: entries_def)
  have each: "entries ! i =
      (case promise_then (fetch_analysis storage net (farmers ! i)) (analysis_entry (farmers ! i)) of
         Inl e \<Rightarrow> placeholder (farmers ! i)
       | Inr entry \<Rightarrow> entry)" if "i < length farmers" for i
    using that by (simp add: entries_def)
  have failed: "entries ! i = placeholder (farmers ! i)"
    if "i < length farmers" "fetch_analysis storage net (farmers ! i) = Inl e" for i e
    using that by (simp add: each promise_then_def)
  have built: "entries ! i = entry"
    if "i < length farmers" "fetch_analysis storage net (farmers ! i) = Inr a"
      "analysis_entry (farmers ! i) a = Inr entry" for i a entry
    using that by (simp add: each promise_then_def)
  have threw: "entries ! i = placeholder (farmers ! i)"
    if "i < length farmers" "fetch_analysis storage net (farmers ! i) = Inr a"
      "analysis_entry (farmers ! i) a = Inl e" for i a e
    using that by (simp add: each promise_then_def)
  have array: "entries ! i =
      JObj [(''id'', farmer_id (farmers ! i)), (''count'', JNum (real (length xs))),
            (''latest'', js_or (case xs of [] \<Rightarrow> JUndefined | x # _ \<Rightarrow> x) JNull)]"
    if "i < length farmers" "fetch_analysis storage net (farmers ! i) = Inr (JArr xs)" for i xs
    using that built [OF that analysis_entry_array] by simp
  from fulfilled len failed array built threw show ?thesis
    by blast
qed

theorem analysisCounts_never_rejects_witness:
  "analysisCounts Map.empty
     (\<lambda>r. if req_url r = ''https://crop-monitoring-system-3.onrender.com/api/admin/farmers/1/analysis''
           then Responds 200 (Some (JArr [JObj [(''crop_type'', JStr ''rice'')], JObj []]))
           else if req_url r = ''https://crop-monitoring-system-3.onrender.com/api/admin/farmers/3/analysis''
           then Responds 200 (Some JNull)
           else Rejects NetworkError)
     [\<lparr>farmer_id = JNum 1, farmer_id_text = ''1'', farmer_fields = []\<rparr>,
      \<lparr>farmer_id = JNum 2, farmer_id_text = ''2'', farmer_fields = []\<rparr>,
      \<lparr>farmer_id = JNum 3, farmer_id_text = ''3'', farmer_fields = []\<rparr>]
   = Inr [JObj [(''id'', JNum 1), (''count'', JNum 2),
                (''latest'', JObj [(''crop_type'', JStr ''rice'')])],
          JObj [(''id'', JNum 2), (''count'', JNum 0), (''latest'', JNull)],
          JObj [(''id'', JNum 3), (''count'', JNum 0), (''latest'', JNull)]]"
proof -
  let ?net = "\<lambda>r. if req_url r = ''https://crop-monitoring-system-3.onrender.com/api/admin/farmers/1/analysis''
           then Responds 200 (Some (JArr [JObj [(''crop_type'', JStr ''rice'')], JObj []]))
           else if req_url r = ''https://crop-monitoring-system-3.onrender.com/api/admin/farmers/3/analysis''
           then Responds 200 (Some JNull)
           else Rejects NetworkError"
  let ?farmers = "[\<lparr>farmer_id = JNum 1, farmer_id_text = ''1'', farmer_fields = []\<rparr>,
      \<lparr>farmer_id = JNum 2, farmer_id_text = ''2'', farmer_fields = []\<rparr>,
      \<lparr>farmer_id = JNum 3, farmer_id_text = ''3'', farmer_fields = []\<rparr>]"
  have first: "fetch_analysis Map.empty ?net (?farmers ! 0)
      = Inr (JArr [JObj [(''crop_type'', JStr ''rice'')], JObj []])"
    by (simp add: fetch_analysis_def apiFetch_def API_BASE_def no_options_def response_ok_def)
  have second: "fetch_analysis Map.empty ?net (?farmers ! 1) = Inl NetworkError"
    by (simp add: fetch_analysis_def apiFetch_def API_BASE_def no_options_def)
  have third: "fetch_analysis Map.empty ?net (?farmers ! 2) = Inr JNull"
    by (simp add: fetch_analysis_def apiFetch_def API_BASE_def no_options_def response_ok_def)
  have third_throws: "analysis_entry (?farmers ! 2) JNull = Inl TypeError"
    by (simp add: analysis_entry_def)
  from analysisCounts_never_rejects [of Map.empty ?net ?farmers]
  obtain es where fulfilled: "analysisCounts Map.empty ?net ?farmers = Inr es"
    and len: "length es = length ?farmers"
    and failed: "\<And>i e. i < length ?farmers \<Longrightarrow>
        fetch_analysis Map.empty ?net (?farmers ! i) = Inl e \<Longrightarrow>
        es ! i = placeholder (?farmers ! i)"
    and array: "\<And>i xs. i < length ?farmers \<Longrightarrow>
        fetch_analysis Map.empty ?net (?farmers ! i) = Inr (JArr xs) \<Longrightarrow>
        es ! i = JObj [(''id'', farmer_id (?farmers ! i)), (''count'', JNum (real (length xs))),
                   (''latest'', js_or (case xs of [] \<Rightarrow> JUndefined | x # _ \<Rightarrow> x) JNull)]"
    and threw: "\<And>i a e. i < length ?farmers \<Longrightarrow>
        fetch_analysis Map.empty ?net (?farmers ! i) = Inr a \<Longrightarrow>
        analysis_entry (?farmers ! i) a = Inl e \<Longrightarrow> es ! i = placeholder (?farmers ! i)"
    by blast
  have e0: "es ! 0 = JObj [(''id'', JNum 1), (''count'', JNum 2),
                (''latest'', JObj [(''crop_type'', JStr ''rice'')])]"
    using array [OF _ first] by (simp add: js_or_def)
  have e1: "es ! 1 = JObj [(''id'', JNum 2), (''count'', JNum 0), (''latest'', JNull)]"
    using failed [OF _ second] by (simp add: placeholder_def)
  have e2: "es ! 2 = JObj [(''id'', JNum 3), (''count'', JNum 0), (''latest'', JNull)]"
    using threw [OF _ third third_throws] by (simp add: placeholder_def)
  from len obtain x y z where "es = [x, y, z]"
    by (cases es; cases "tl es"; cases "tl (tl es)"; cases "tl (tl (tl es))") auto
  with e0 e1 e2 fulfilled show ?thesis
    by simp
qed

section \<open>Offline directory\<close>

lemma findIndex_lower: "- 1 \<le> findIndex pred xs"
  by (induction xs) (simp_all add: Let_def)

lemma cacheUser_Nil: "cacheUser [] userData = [userData]"
  by (simp add: cacheUser_def)

lemma cacheUser_Cons:
  "cacheUser (x # xs) userData =
     (if email_phone x = email_phone userData then userData # xs
      else x # cacheUser xs userData)"
proof (cases "email_phone x = email_phone userData")
  case True
  then show ?thesis by (simp add: cacheUser_def)
next
  case False
  let ?i = "findIndex (\<lambda>u. email_phone u = email_phone userData) xs"
  show ?thesis
  proof (cases "?i < 0")
    case True
    with False show ?thesis by (simp add: cacheUser_def Let_def)
  next
    case nonneg: False
    then have "nat (?i + 1) = Suc (nat ?i)" by simp
    with False nonneg show ?thesis by (simp add: cacheUser_def Let_def)
  qed
qed

lemma storeUserLocally_cacheUser: "storeUserLocally users userData = cacheUser users userData"
  by (simp add: storeUserLocally_def cacheUser_def)

lemma filter_cacheUser:
  "length (filter (\<lambda>u. email_phone u = email_phone userData) users) \<le> 1 \<Longrightarrow>
   filter (\<lambda>u. email_phone u = email_phone userData) (cacheUser users userData) = [userData]"
proof (induction users)
  case Nil
  show ?case by (simp add: cacheUser_Nil)
next
  case (Cons x xs)
  show ?case
  proof (cases "email_phone x = email_phone userData")
    case True
    with Cons.prems have "filter (\<lambda>u. email_phone u = email_phone userData) xs = []"
      by simp
    with True show ?thesis by (simp add: cacheUser_Cons)
  next
    case False
    with Cons show ?thesis by (simp add: cacheUser_Cons)
  qed
qed

lemma contacts_cacheUser:
  "set (map email_phone (cacheUser users userData))
     = insert (email_phone userData) (set (map email_phone users))"
  by (induction users) (auto simp: cacheUser_Nil cacheUser_Cons)

lemma distinct_cacheUser:
  "distinct (map email_phone users) \<Longrightarrow> distinct (map email_phone (cacheUser users userData))"
proof (induction users)
  case Nil
  show ?case by (simp add: cacheUser_Nil)
next
  case (Cons x xs)
  show ?case
  proof (cases "email_phone x = email_phone userData")
    case True
    with Cons.prems show ?thesis by (simp add: cacheUser_Cons)
  next
    case False
    with Cons have "distinct (map email_phone (cacheUser xs userData))"
      and "email_phone x \<notin> set (map email_phone xs)"
      by simp_all
    with False show ?thesis
      by (simp add: cacheUser_Cons contacts_cacheUser del: set_map)
  qed
qed

lemma positions_of_filter:
  "map (nth users) (positions_of contact users) = filter (\<lambda>u. email_phone u = contact) users"
proof -
  have "filter (\<lambda>u. email_phone u = contact) (map (nth users) [0..<length users])
      = map (nth users) (positions_of contact users)"
    by (simp add: positions_of_def filter_map comp_def)
  then show ?thesis by (simp add: map_nth)
qed

lemma length_positions_of:
  "length (positions_of contact users) = length (filter (\<lambda>u. email_phone u = contact) users)"
  using positions_of_filter [of users contact] by (metis length_map)

text \<open>
  C9. When the directory holds the contact of the written account at most once, then
  after \<open>cacheUser\<close> exactly one position of the directory holds that contact, and
  the account at that position is the one just written. A directory whose contacts
  are pairwise different stays so. \<open>storeUserLocally\<close> is the same function.
\<close>

theorem cacheUser_upsert:
  "(length (positions_of (email_phone userData) users) \<le> 1 \<longrightarrow>
      (\<exists>i. positions_of (email_phone userData) (cacheUser users userData) = [i] \<and>
           cacheUser users userData ! i = userData)) \<and>
   (distinct (map email_phone users) \<longrightarrow>
      distinct (map email_phone (cacheUser users userData))) \<and>
   storeUserLocally users userData = cacheUser users userData"
proof (intro conjI impI)
  assume "length (positions_of (email_phone userData) users) \<le> 1"
  then have once: "filter (\<lambda>u. email_phone u = email_phone userData) (cacheUser users userData)
      = [userData]"
    by (simp add: length_positions_of filter_cacheUser)
  then have "length (positions_of (email_phone userData) (cacheUser users userData)) = 1"
    by (simp add: length_positions_of)
  then obtain i where i: "positions_of (email_phone userData) (cacheUser users userData) = [i]"
    by (cases "positions_of (email_phone userData) (cacheUser users userData)") auto
  with once positions_of_filter [of "cacheUser users userData" "email_phone userData"]
  have "cacheUser users userData ! i = userData"
    by simp
  with i show "\<exists>i. positions_of (email_phone userData) (cacheUser users userData) = [i] \<and>
      cacheUser users userData ! i = userData"
    by blast
next
  assume "distinct (map email_phone users)"
  then show "distinct (map email_phone (cacheUser users userData))"
    by (rule distinct_cacheUser)
next
  show "storeUserLocally users userData = cacheUser users userData"
    by (rule storeUserLocally_cacheUser)
qed

theorem cacheUser_upsert_witness:
  "positions_of ''ravi@example.com''
     (cacheUser
        [\<lparr>email_phone = ''asha@example.com'', password = ''secret1'', profile = []\<rparr>,
         \<lparr>email_phone = ''ravi@example.com'', password = ''old-pw'', profile = []\<rparr>]
        \<lparr>email_phone = ''ravi@example.com'', password = ''new-pw'', profile = []\<rparr>) = [1] \<and>
   cacheUser
        [\<lparr>email_phone = ''asha@example.com'', password = ''secret1'', profile = []\<rparr>,
         \<lparr>email_phone = ''ravi@example.com'', password = ''old-pw'', profile = []\<rparr>]
        \<lparr>email_phone = ''ravi@example.com'', password = ''new-pw'', profile = []\<rparr> ! 1
     = \<lparr>email_phone = ''ravi@example.com'', password = ''new-pw'', profile = []\<rparr> \<and>
   distinct (map email_phone
     (cacheUser
        [\<lparr>email_phone = ''asha@example.com'', password = ''secret1'', profile = []\<rparr>,
         \<lparr>email_phone = ''ravi@example.com'', password = ''old-pw'', profile = []\<rparr>]
        \<lparr>email_phone = ''ravi@example.com'', password = ''new-pw'', profile = []\<rparr>))"
proof -
  let ?users = "[\<lparr>email_phone = ''asha@example.com'', password = ''secret1'', profile = []\<rparr>,
         \<lparr>email_phone = ''ravi@example.com'', password = ''old-pw'', profile = []\<rparr>]"
  let ?new = "\<lparr>email_phone = ''ravi@example.com'', password = ''new-pw'', profile = []\<rparr>"
  have pos: "positions_of ''ravi@example.com'' ?users = [1]"
    by (simp add: positions_of_def upt_rec)
  have "length (positions_of (email_phone ?new) ?users) \<le> 1"
    using pos by simp
  with cacheUser_upsert [of ?new ?users]
  obtain i where i: "positions_of (email_phone ?new) (cacheUser ?users ?new) = [i]"
    "cacheUser ?users ?new ! i = ?new"
    by blast
  have "positions_of ''ravi@example.com'' (cacheUser ?users ?new) = [1]"
    by (simp add: cacheUser_Cons positions_of_def upt_rec)
  with i have at: "positions_of ''ravi@example.com'' (cacheUser ?users ?new) = [1]"
    and new: "cacheUser ?users ?new ! 1 = ?new"
    by simp_all
  have "distinct (map email_phone ?users)"
    by simp
  with cacheUser_upsert [of ?new ?users]
  have dist: "distinct (map email_phone (cacheUser ?users ?new))"
    by blast
  show ?thesis
    by (intro conjI at new dist)
qed

text \<open>
  A directory that already holds a contact twice keeps both positions: the write
  replaces the first and leaves the second with its old data.
\<close>

theorem cacheUser_duplicate_contact:
  "positions_of ''ravi@example.com''
     (cacheUser
        [\<lparr>email_phone = ''ravi@example.com'', password = ''old-pw'', profile = []\<rparr>,
         \<lparr>email_phone = ''ravi@example.com'', password = ''older-pw'', profile = []\<rparr>]
        \<lparr>email_phone = ''ravi@example.com'', password = ''new-pw'', profile = []\<rparr>) = [0, 1] \<and>
   cacheUser
        [\<lparr>email_phone = ''ravi@example.com'', password = ''old-pw'', profile = []\<rparr>,
         \<lparr>email_phone = ''ravi@example.com'', password = ''older-pw'', profile = []\<rparr>]
        \<lparr>email_phone = ''ravi@example.com'', password = ''new-pw'', profile = []\<rparr>
     = [\<lparr>email_phone = ''ravi@example.com'', password = ''new-pw'', profile = []\<rparr>,
        \<lparr>email_phone = ''ravi@example.com'', password = ''older-pw'', profile = []\<rparr>] \<and>
   storeUserLocally
        [\<lparr>email_phone = ''ravi@example.com'', password = ''old-pw'', profile = []\<rparr>,
         \<lparr>email_phone = ''ravi@example.com'', password = ''older-pw'', profile = []\<rparr>]
        \<lparr>email_phone = ''ravi@example.com'', password = ''new-pw'', profile = []\<rparr>
     = [\<lparr>email_phone = ''ravi@example.com'', password = ''new-pw'', profile = []\<rparr>,
        \<lparr>email_phone = ''ravi@example.com'', password = ''older-pw'', profile = []\<rparr>]"
  by (simp add: cacheUser_def storeUserLocally_def positions_of_def upt_rec)

section \<open>Weather fallback\<close>

lemma current_index:
  assumes "in_unit_interval x"
  shows "\<lfloor>x * 3\<rfloor> = 0 \<or> \<lfloor>x * 3\<rfloor> = 1 \<or> \<lfloor>x * 3\<rfloor> = 2"
proof -
  from assms have "0 \<le> x * 3" and "x * 3 < 3"
    by (simp_all add: in_unit_interval_def)
  then have "0 \<le> \<lfloor>x * 3\<rfloor>" and "\<lfloor>x * 3\<rfloor> < 3"
    by (simp_all add: floor_less_iff)
  then show ?thesis by linarith
qed

text \<open>
  C10. For every draw in \<open>[0, 1)\<close> the current conditions of \<open>localWeather\<close> come from
  the first three entries: the description is Sunny, Partly Cloudy or Mostly Cloudy,
  the icon is the one of the same index, and the advisory is the text with the
  sentence on favourable field operations; so the description is never Cloudy,
  Light Rain or Thunderstorm. The forecast draws range over all six icons: with
  forecast draws of 3/4 every forecast day shows the rain icon.
\<close>

theorem localWeather_current_conditions:
  "(in_unit_interval (draw_idx r) \<longrightarrow>
      (w_description (localWeather location r), w_icon (localWeather location r))
        \<in> {(Some ''Sunny'', Some icon_sun),
            (Some ''Partly Cloudy'', Some icon_sun_small_cloud),
            (Some ''Mostly Cloudy'', Some icon_sun_behind_cloud)} \<and>
      w_description (localWeather location r)
        \<notin> {Some ''Cloudy'', Some ''Light Rain'', Some ''Thunderstorm'', None} \<and>
      w_advisory (localWeather location r)
        = ''Weather in '' @ location @ '': ''
            @ template_str (w_description (localWeather location r))
            @ ''. Favorable for field operations and spraying.''
            @ '' Monitor updates before planning irrigation.'') \<and>
   map fd_icon (w_forecast (localWeather ''pune''
      \<lparr>draw_idx = 99 / 100, draw_day_icon = (\<lambda>i. 3 / 4), draw_day_high = (\<lambda>i. 0),
       draw_day_low = (\<lambda>i. 0), draw_temp = 0, draw_humidity = 0, draw_wind = 0,
       draw_pressure = 0\<rparr>))
     = [Some icon_rain, Some icon_rain, Some icon_rain, Some icon_rain, Some icon_rain]"
proof (intro conjI impI)
  assume unit: "in_unit_interval (draw_idx r)"
  let ?idx = "\<lfloor>draw_idx r * 3\<rfloor>"
  from current_index [OF unit] consider "?idx = 0" | "?idx = 1" | "?idx = 2"
    by blast
  then have current:
    "(w_description (localWeather location r), w_icon (localWeather location r))
        \<in> {(Some ''Sunny'', Some icon_sun),
            (Some ''Partly Cloudy'', Some icon_sun_small_cloud),
            (Some ''Mostly Cloudy'', Some icon_sun_behind_cloud)}"
    by cases (simp_all add: localWeather_def Let_def js_nth_def descs_def icons_def)
  then show "(w_description (localWeather location r), w_icon (localWeather location r))
        \<in> {(Some ''Sunny'', Some icon_sun),
            (Some ''Partly Cloudy'', Some icon_sun_small_cloud),
            (Some ''Mostly Cloudy'', Some icon_sun_behind_cloud)}" .
  from current show "w_description (localWeather location r)
        \<notin> {Some ''Cloudy'', Some ''Light Rain'', Some ''Thunderstorm'', None}"
    by auto
  from current_index [OF unit] have "?idx < 3"
    by linarith
  then show "w_advisory (localWeather location r)
        = ''Weather in '' @ location @ '': ''
            @ template_str (w_description (localWeather location r))
            @ ''. Favorable for field operations and spraying.''
            @ '' Monitor updates before planning irrigation.''"
    by (simp add: localWeather_def Let_def)
next
  show "map fd_icon (w_forecast (localWeather ''pune''
      \<lparr>draw_idx = 99 / 100, draw_day_icon = (\<lambda>i. 3 / 4), draw_day_high = (\<lambda>i. 0),
       draw_day_low = (\<lambda>i. 0), draw_temp = 0, draw_humidity = 0, draw_wind = 0,
       draw_pressure = 0\<rparr>))
     = [Some icon_rain, Some icon_rain, Some icon_rain, Some icon_rain, Some icon_rain]"
    by (simp add: localWeather_def Let_def js_nth_def icons_def days_def)
qed

theorem localWeather_current_conditions_witness:
  "in_unit_interval (99 / 100) \<and>
   w_description (localWeather ''pune''
      \<lparr>draw_idx = 99 / 100, draw_day_icon = (\<lambda>i. 3 / 4), draw_day_high = (\<lambda>i. 0),
       draw_day_low = (\<lambda>i. 0), draw_temp = 0, draw_humidity = 0, draw_wind = 0,
       draw_pressure = 0\<rparr>) = Some ''Mostly Cloudy'' \<and>
   w_advisory (localWeather ''pune''
      \<lparr>draw_idx = 99 / 100, draw_day_icon = (\<lambda>i. 3 / 4), draw_day_high = (\<lambda>i. 0),
       draw_day_low = (\<lambda>i. 0), draw_temp = 0, draw_humidity = 0, draw_wind = 0,
       draw_pressure = 0\<rparr>)
     = ''Weather in pune: Mostly Cloudy. Favorable for field operations and spraying. Monitor updates before planning irrigation.''"
proof -
  let ?r = "\<lparr>draw_idx = 99 / 100, draw_day_icon = (\<lambda>i. 3 / 4), draw_day_high = (\<lambda>i. 0),
       draw_day_low = (\<lambda>i. 0), draw_temp = 0, draw_humidity = 0, draw_wind = 0,
       draw_pressure = 0\<rparr>"
  have unit: "in_unit_interval (99 / 100)"
    by (simp add: in_unit_interval_def)
  have description: "w_description (localWeather ''pune'' ?r) = Some ''Mostly Cloudy''"
    by (simp add: localWeather_def Let_def js_nth_def descs_def)
  have "w_advisory (localWeather ''pune'' ?r)
        = ''Weather in '' @ ''pune'' @ '': ''
            @ template_str (w_description (localWeather ''pune'' ?r))
            @ ''. Favorable for field operations and spraying.''
            @ '' Monitor updates before planning irrigation.''"
    using localWeather_current_conditions [of ?r "''pune''"] unit by simp
  then have advisory: "w_advisory (localWeather ''pune'' ?r)
     = ''Weather in pune: Mostly Cloudy. Favorable for field operations and spraying. Monitor updates before planning irrigation.''"
    by (simp add: description template_str_def)
  show ?thesis
    by (intro conjI unit description advisory)
qed

end
